theory Spec2Isabelle
  imports Main "HOL-Library.Char_ord" "HOL-Library.List_Lexorder"
begin

section \<open>Values, errors and strings of the runtime\<close>

text \<open>
  JavaScript strings are modelled as \<open>string\<close>: one \<open>char\<close> per UTF-16 code unit, for
  the code units below 256. Values produced by \<^verbatim>\<open>JSON.parse\<close> are a datatype; numbers are
  the integers (fractions and exponents are outside the model).
\<close>

datatype json =
    JNull
  | JBool bool
  | JNum int
  | JStr string
  | JArr "json list"
  | JObj "(string \<times> json) list"

text \<open>
  What the code throws: a plain \<^verbatim>\<open>Error\<close>, a \<^verbatim>\<open>TypeError\<close> raised by the runtime, and the
  \<^verbatim>\<open>VerificationError\<close> of errors.ts, which carries a message and untyped metadata.
\<close>

datatype js_error =
    Error string
  | TypeError string
  | VerificationError string json

subsection \<open>String.prototype.trim, startsWith, split, Array.prototype.join\<close>

definition is_ws :: "char \<Rightarrow> bool" where
  \<comment> \<open>WhiteSpace and LineTerminator code units below 256: TAB, LF, VT, FF, CR, SP, NBSP.\<close>
  "is_ws c = ((of_char c :: nat) \<in> {9, 10, 11, 12, 13, 32, 160})"

definition trim :: "string \<Rightarrow> string" where
  "trim s = rev (dropWhile is_ws (rev (dropWhile is_ws s)))"

definition startsWith :: "string \<Rightarrow> string \<Rightarrow> bool" where
  "startsWith s p = (take (length p) s = p)"

fun split_on :: "char \<Rightarrow> string \<Rightarrow> string list" where
  "split_on c [] = [[]]"
| "split_on c (x # xs) =
     (if x = c then [] # split_on c xs
      else (case split_on c xs of
              [] \<Rightarrow> [[x]]
            | s # ss \<Rightarrow> (x # s) # ss))"

fun join_with :: "string \<Rightarrow> string list \<Rightarrow> string" where
  "join_with sep [] = []"
| "join_with sep [s] = s"
| "join_with sep (s # t # ts) = s @ sep @ join_with sep (t # ts)"

text \<open>Decimal rendering of a number in a template literal; \<^verbatim>\<open>null\<close> for a missing one.\<close>

fun digits :: "nat \<Rightarrow> string" where
  "digits n = (if n < 10 then [char_of (48 + n)] else digits (n div 10) @ [char_of (48 + n mod 10)])"

declare digits.simps [simp del]

definition show_int :: "int \<Rightarrow> string" where
  "show_int i = (if i < 0 then ''-'' @ digits (nat (- i)) else digits (nat i))"

definition show_code :: "int option \<Rightarrow> string" where
  "show_code c = (case c of None \<Rightarrow> ''null'' | Some i \<Rightarrow> show_int i)"

subsection \<open>path.join (POSIX)\<close>

text \<open>
  \<^verbatim>\<open>path.join\<close> concatenates its non-empty arguments with \<open>/\<close> and normalises the
  result: empty and \<open>.\<close> segments vanish, a \<open>..\<close> segment removes the segment before it
  (unless that one is \<open>..\<close> itself or there is none; then it stays on a relative path and is
  dropped on an absolute one), and a trailing slash is kept. An argument that is not a
  string makes it throw a \<^verbatim>\<open>TypeError\<close>; \<open>join_args\<close> takes \<open>None\<close> for \<^verbatim>\<open>undefined\<close>.
\<close>

fun normalizeString :: "bool \<Rightarrow> string list \<Rightarrow> string list \<Rightarrow> string list" where
  "normalizeString allowAboveRoot res [] = rev res"
| "normalizeString allowAboveRoot res (s # ss) =
     (if s = [] \<or> s = ''.'' then normalizeString allowAboveRoot res ss
      else if s = ''..'' then
        (case res of
           r # rs \<Rightarrow>
             if r \<noteq> ''..'' then normalizeString allowAboveRoot rs ss
             else if allowAboveRoot then normalizeString allowAboveRoot (''..'' # res) ss
             else normalizeString allowAboveRoot res ss
         | [] \<Rightarrow>
             if allowAboveRoot then normalizeString allowAboveRoot [''..''] ss
             else normalizeString allowAboveRoot res ss)
      else normalizeString allowAboveRoot (s # res) ss)"

definition normalize_path :: "string \<Rightarrow> string" where
  "normalize_path p =
     (if p = [] then ''.''
      else
        let isAbsolute = (hd p = CHR ''/'');
            trailingSeparator = (last p = CHR ''/'');
            q = join_with ''/'' (normalizeString (\<not> isAbsolute) [] (split_on CHR ''/'' p))
        in if q = [] then (if isAbsolute then ''/'' else if trailingSeparator then ''./'' else ''.'')
           else (if isAbsolute then ''/'' else []) @ q @ (if trailingSeparator then ''/'' else []))"

definition join :: "string list \<Rightarrow> string" where
  "join args =
     (let joined = join_with ''/'' (filter (\<lambda>a. a \<noteq> []) args)
      in if joined = [] then ''.'' else normalize_path joined)"

definition join_args :: "string option list \<Rightarrow> js_error + string" where
  "join_args args =
     (if None \<in> set args
      then Inl (TypeError (''The '' @ [CHR 0x22] @ ''path'' @ [CHR 0x22] @
                  '' argument must be of type string. Received undefined''))
      else Inr (join (map the args)))"

section \<open>generate.ts\<close>

text \<open>
  A \<^verbatim>\<open><file>\<close> element of the parsed response: its \<^verbatim>\<open>path\<close> attribute (\<open>None\<close> when the
  attribute is missing) and its text content.
\<close>

record file_tag =
  path_attr :: "string option"
  text_of :: string

datatype fs_op = Mkdir string | WriteFile string string

datatype content_block = TextBlock string | OtherBlock string

text \<open>
  The collaborators of \<^verbatim>\<open>generateTest\<close>: reading the prompt file of a directory, the
  completion request for a task description (template substitution and the request
  itself), the serialisation used in an error message, the markup parser with its
  \<^verbatim>\<open>$("file").toArray()\<close> query, and the disk: \<open>fsFault\<close> gives the message of the error
  with which a file-system call is rejected, if it is.
\<close>

record generator =
  readPrompt :: "string \<Rightarrow> js_error + string"
  createMessage :: "string \<Rightarrow> js_error + content_block list"
  stringify :: "content_block list \<Rightarrow> string"
  fileTags :: "string \<Rightarrow> file_tag list"
  fsFault :: "fs_op \<Rightarrow> string option"

text \<open>
  \<^verbatim>\<open>mkdir(p, {recursive: true})\<close> and \<^verbatim>\<open>writeFile(p, c)\<close>, given the operations the run has
  performed so far: the message of the error they reject with, or \<open>None\<close>. What the run
  has done itself decides these cases: a path that ends in a slash, or that the run has
  made a directory, or below which it has made a directory or written a file, cannot be
  written as a file; and no directory can be made at or below a path the run has written
  as a file. Everything else is the disk's answer. \<open>under p q\<close> says that \<open>q\<close> is \<open>p\<close> or
  lies below it.
\<close>

definition under :: "string \<Rightarrow> string \<Rightarrow> bool" where
  "under p q = (q = p \<or> startsWith q (p @ ''/''))"

definition is_directory :: "fs_op list \<Rightarrow> string \<Rightarrow> bool" where
  "is_directory performed p =
     (\<exists>op\<in>set performed. case op of Mkdir d \<Rightarrow> under p d | WriteFile f c \<Rightarrow> f \<noteq> p \<and> under p f)"

definition is_file :: "fs_op list \<Rightarrow> string \<Rightarrow> bool" where
  "is_file performed p =
     (\<exists>op\<in>set performed. case op of Mkdir d \<Rightarrow> False | WriteFile f c \<Rightarrow> f = p)"

definition below_file :: "fs_op list \<Rightarrow> string \<Rightarrow> bool" where
  "below_file performed p =
     (\<exists>op\<in>set performed. case op of Mkdir d \<Rightarrow> False | WriteFile f c \<Rightarrow> startsWith p (f @ ''/''))"

definition mkdir :: "(fs_op \<Rightarrow> string option) \<Rightarrow> fs_op list \<Rightarrow> string \<Rightarrow> string option" where
  "mkdir faults performed d =
     (if is_file performed d then Some (''EEXIST: file already exists, mkdir '' @ d)
      else if below_file performed d then Some (''ENOTDIR: not a directory, mkdir '' @ d)
      else faults (Mkdir d))"

definition writeFile ::
  "(fs_op \<Rightarrow> string option) \<Rightarrow> fs_op list \<Rightarrow> string \<Rightarrow> string \<Rightarrow> string option" where
  "writeFile faults performed p c =
     (if (p \<noteq> [] \<and> last p = CHR ''/'') \<or> is_directory performed p
      then Some (''EISDIR: illegal operation on a directory, open '' @ p)
      else if below_file performed p then Some (''ENOTDIR: not a directory, open '' @ p)
      else faults (WriteFile p c))"

text \<open>
  The loop over the file tags, from the operations performed so far and the count
  \<^verbatim>\<open>generated\<close>. The result is what the loop ends with (the error thrown, or the count)
  together with the file-system operations performed, in order; an operation that is
  rejected is not among them.
\<close>

fun writeTags ::
  "(fs_op \<Rightarrow> string option) \<Rightarrow> string \<Rightarrow> fs_op list \<Rightarrow> nat \<Rightarrow> file_tag list \<Rightarrow>
   (js_error + nat) \<times> fs_op list" where
  "writeTags faults projectDir performed generated [] = (Inr generated, performed)"
| "writeTags faults projectDir performed generated (fileTag # rest) =
     (case path_attr fileTag of
        None \<Rightarrow> (Inl (Error ''File path is not set''), performed)
      | Some path \<Rightarrow>
          if path = [] then (Inl (Error ''File path is not set''), performed)
          else
            let absFilePath = join [projectDir, path] in
            if \<not> startsWith absFilePath projectDir
            then (Inl (Error (''File path '' @ absFilePath @ '' is not underneath '' @ projectDir)),
                  performed)
            else
              (case mkdir faults performed (join [absFilePath, ''..'']) of
                 Some msg \<Rightarrow> (Inl (Error msg), performed)
               | None \<Rightarrow>
                   let made = performed @ [Mkdir (join [absFilePath, ''..''])];
                       content = trim (text_of fileTag)
                   in (case writeFile faults made absFilePath content of
                         Some msg \<Rightarrow> (Inl (Error msg), made)
                       | None \<Rightarrow>
                           writeTags faults projectDir (made @ [WriteFile absFilePath content])
                             (generated + length content) rest)))"

definition generateTest :: "generator \<Rightarrow> string \<Rightarrow> string \<Rightarrow> (js_error + nat) \<times> fs_op list" where
  "generateTest g inputDir outputRoot =
     (case readPrompt g (join [inputDir, ''PROMPT.txt'']) of
        Inl e \<Rightarrow> (Inl e, [])
      | Inr prompt \<Rightarrow>
          (case createMessage g prompt of
             Inl e \<Rightarrow> (Inl e, [])
           | Inr content \<Rightarrow>
               (case content of
                  [TextBlock txt] \<Rightarrow>
                    let projectDir = join [outputRoot, ''project''] in
                    (case mkdir (fsFault g) [] projectDir of
                       Some msg \<Rightarrow> (Inl (Error msg), [])
                     | None \<Rightarrow>
                         writeTags (fsFault g) projectDir [Mkdir projectDir] 0
                           (fileTags g (''<analysis>'' @ txt)))
                | _ \<Rightarrow>
                    (Inl (Error (''Message content is not text: '' @ stringify g content)), []))))"

text \<open>
  What the contract of the generation collaborator asks of a resolved path: to lie
  strictly inside the project directory. And the files written, in order.
\<close>

definition strictly_inside :: "string \<Rightarrow> string \<Rightarrow> bool" where
  "strictly_inside root p = (startsWith p (root @ ''/'') \<and> length root + 1 < length p)"

definition written :: "fs_op list \<Rightarrow> (string \<times> string) list" where
  "written ops = concat (map (\<lambda>op. case op of WriteFile p c \<Rightarrow> [(p, c)] | Mkdir _ \<Rightarrow> []) ops)"


section \<open>errors.ts\<close>

text \<open>
  \<^verbatim>\<open>String(v)\<close> on a parsed value, and \<^verbatim>\<open>Array.prototype.join\<close>, which renders \<^verbatim>\<open>null\<close>
  elements as the empty string and every object as \<^verbatim>\<open>[object Object]\<close>.
\<close>

fun ToString :: "json \<Rightarrow> string" where
  "ToString JNull = ''null''"
| "ToString (JBool b) = (if b then ''true'' else ''false'')"
| "ToString (JNum n) = show_int n"
| "ToString (JStr s) = s"
| "ToString (JArr xs) = join_with '','' (map (\<lambda>v. if v = JNull then [] else ToString v) xs)"
| "ToString (JObj kvs) = ''[object Object]''"

definition array_join :: "string \<Rightarrow> json list \<Rightarrow> string" where
  "array_join sep xs = join_with sep (map (\<lambda>v. if v = JNull then [] else ToString v) xs)"

text \<open>
  \<^verbatim>\<open>String(e)\<close> on a thrown value. The built-in errors print as \<open>name: message\<close>;
  \<^verbatim>\<open>VerificationError.toString\<close> calls \<^verbatim>\<open>this.metadata.join("\n")\<close>, which is itself a
  \<^verbatim>\<open>TypeError\<close> when the metadata is not an array (the wording of its message is the
  engine's; a fixed text stands for it).
\<close>

fun String_of :: "js_error \<Rightarrow> js_error + string" where
  "String_of (Error m) = Inr (if m = [] then ''Error'' else ''Error: '' @ m)"
| "String_of (TypeError m) = Inr (if m = [] then ''TypeError'' else ''TypeError: '' @ m)"
| "String_of (VerificationError m metadata) =
     (case metadata of
        JArr xs \<Rightarrow> Inr (m @ [CHR 0x0A] @ array_join [CHR 0x0A] xs)
      | _ \<Rightarrow> Inl (TypeError ''this.metadata.join is not a function''))"

datatype diagnostics = Text string | Metadata json

fun errorStatus :: "js_error \<Rightarrow> js_error + string \<times> diagnostics" where
  "errorStatus (VerificationError m metadata) = Inr (''failed'', Metadata metadata)"
| "errorStatus e = (case String_of e of Inl t \<Rightarrow> Inl t | Inr s \<Rightarrow> Inr (''failed'', Text s))"

section \<open>typescript.ts\<close>

text \<open>
  The external commands: the exit code a command closes with in a directory (\<open>None\<close> is
  \<^verbatim>\<open>null\<close>, a command ended by a signal), the output the type checker and the linter
  write, and \<^verbatim>\<open>JSON.parse\<close> (\<open>None\<close> when it throws).
\<close>

record toolchain =
  install :: "string \<Rightarrow> int option"
  codegen :: "string \<Rightarrow> int option"
  tsc :: "string \<Rightarrow> int option \<times> string"
  eslint :: "string \<Rightarrow> int option \<times> string"
  JSON_parse :: "string \<Rightarrow> json option"

definition setupJs :: "toolchain \<Rightarrow> string \<Rightarrow> js_error + unit" where
  "setupJs tc outputDir =
     (let projectDir = join [outputDir, ''project''] in
      if install tc projectDir = Some 0 then
        (if codegen tc projectDir = Some 0 then Inr ()
         else Inl (Error (''Codegen failed with code '' @ show_code (codegen tc projectDir))))
      else Inl (Error (''Install failed with code '' @ show_code (install tc projectDir))))"

definition typecheckJs :: "toolchain \<Rightarrow> string \<Rightarrow> js_error + unit" where
  "typecheckJs tc outputDir =
     (let convexDir = join [outputDir, ''project'', ''convex''];
          (code, stdout) = tsc tc convexDir
      in if code = Some 0 then Inr ()
         else Inl (VerificationError ''Typechecking failed''
                     (JArr (map JStr (split_on (CHR 0x0A) stdout)))))"

text \<open>
  \<^verbatim>\<open>for (const error of errors) delete error.source\<close>: arrays and strings are iterable, any
  other parsed value throws; deleting a property of \<^verbatim>\<open>null\<close> throws, of a primitive or an
  array does nothing. \<open>None\<close> is the throw.
\<close>

fun delete_source :: "json \<Rightarrow> json" where
  "delete_source (JObj kvs) = JObj (filter (\<lambda>kv. fst kv \<noteq> ''source'') kvs)"
| "delete_source v = v"

fun strip_sources :: "json \<Rightarrow> json option" where
  "strip_sources (JArr xs) = (if JNull \<in> set xs then None else Some (JArr (map delete_source xs)))"
| "strip_sources (JStr s) = Some (JStr s)"
| "strip_sources v = None"

definition lintJs :: "toolchain \<Rightarrow> string \<Rightarrow> js_error + unit" where
  "lintJs tc outputDir =
     (let convexDir = join [outputDir, ''project'', ''convex''];
          (code, stdout) = eslint tc convexDir
      in if code = Some 0 then Inr ()
         else (case JSON_parse tc stdout of
                 None \<Rightarrow> Inl (Error (''ESLint failed with output: '' @ stdout))
               | Some errors \<Rightarrow>
                   (case strip_sources errors of
                      None \<Rightarrow> Inl (Error (''ESLint failed with output: '' @ stdout))
                    | Some stripped \<Rightarrow> Inl (VerificationError ''Linting failed'' stripped))))"

section \<open>convex_backend.ts\<close>

subsection \<open>healthCheck\<close>

text \<open>
  Time is the millisecond clock \<^verbatim>\<open>Date.now()\<close>. Each pass through the loop is described by
  the environment: how long the request takes, what comes back (an HTTP status, or the
  error \<^verbatim>\<open>fetch\<close> rejects with), and by how much the timer overshoots the delay it was
  given. The list of passes is the fuel of the loop: a result \<open>None\<close> says that the loop is
  still running when the described passes are used up.
\<close>

datatype reply = Status nat | Refused js_error

record attempt =
  fetch_ms :: nat
  reply :: reply
  timer_lag :: nat

datatype backend_event =
    MkdirP string
  | OpenLog string
  | SpawnBackend string
  | Fetch int
  | Sleep int
  | RunDeploy string
  | Kill
  | CloseStdout
  | CloseStderr

fun fetch_failure :: "reply \<Rightarrow> js_error option" where
  "fetch_failure (Status n) =
     (if 200 \<le> n \<and> n \<le> 299 then None else Some (Error (''HTTP '' @ digits n)))"
| "fetch_failure (Refused e) = Some e"

text \<open>
  The \<^verbatim>\<open>while (true)\<close> loop, with \<^verbatim>\<open>deadline\<close> and \<^verbatim>\<open>numAttempts\<close> as in the source. The
  event \<open>Fetch t\<close> records the clock when a request has settled (the value \<^verbatim>\<open>Date.now()\<close>
  has in the \<^verbatim>\<open>catch\<close> block), \<open>Sleep d\<close> the delay handed to \<^verbatim>\<open>setTimeout\<close>. The result
  is the outcome, the clock at the end, and the events. The delay is computed on
  integers: \<^verbatim>\<open>100 * Math.pow(2, numAttempts)\<close> is exact as long as it is finite, and where
  it overflows to infinity the minimum is \<^verbatim>\<open>remaining\<close>, as it is here.
\<close>

fun poll :: "int \<Rightarrow> nat \<Rightarrow> int \<Rightarrow> attempt list \<Rightarrow> (js_error + bool) option \<times> int \<times> backend_event list" where
  "poll deadline numAttempts now [] = (None, now, [])"
| "poll deadline numAttempts now (a # rest) =
     (let now1 = now + int (fetch_ms a) in
      case fetch_failure (reply a) of
        None \<Rightarrow> (Some (Inr True), now1, [Fetch now1])
      | Some e \<Rightarrow>
          let remaining = deadline - now1 in
          if remaining < 0 then (Some (Inl e), now1, [Fetch now1])
          else
            let delay = min (100 * 2 ^ numAttempts) remaining;
                (r, t, evs) = poll deadline (numAttempts + 1) (now1 + delay + int (timer_lag a)) rest
            in (r, t, Fetch now1 # Sleep delay # evs))"

definition healthCheck :: "int \<Rightarrow> attempt list \<Rightarrow> (js_error + bool) option \<times> int \<times> backend_event list" where
  "healthCheck now attempts = poll (now + 10000) 0 now attempts"

definition sleeps :: "backend_event list \<Rightarrow> int list" where
  "sleeps evs = concat (map (\<lambda>ev. case ev of Sleep d \<Rightarrow> [d] | _ \<Rightarrow> []) evs)"

definition fetch_times :: "backend_event list \<Rightarrow> int list" where
  "fetch_times evs = concat (map (\<lambda>ev. case ev of Fetch t \<Rightarrow> [t] | _ \<Rightarrow> []) evs)"

subsection \<open>deploy\<close>

text \<open>
  The backend of one deploy attempt: the clock when the probe starts, the passes of the
  probe, when and with which code the backend process exits by itself (if it does), the
  status of the deploy command (\<open>None\<close> is \<^verbatim>\<open>null\<close>), and \<open>fault\<close>: the message of the error
  with which creating a directory, opening or closing a log file or starting the process
  fails, if it does. \<^verbatim>\<open>kill()\<close> returns a boolean and does not throw.
\<close>

record backend =
  started :: int
  attempts :: "attempt list"
  exits :: "(int \<times> int) option"
  deployStatus :: "int option"
  fault :: "backend_event \<Rightarrow> string option"

definition exitCode :: "backend \<Rightarrow> int \<Rightarrow> int option" where
  "exitCode b now = (case exits b of None \<Rightarrow> None | Some (t, c) \<Rightarrow> if t \<le> now then Some c else None)"

text \<open>The body of the \<^verbatim>\<open>try\<close> block.\<close>

definition deploy_body :: "backend \<Rightarrow> string \<Rightarrow> (js_error + unit) option \<times> backend_event list" where
  "deploy_body b projectDir =
     (case healthCheck (started b) (attempts b) of
        (None, t, evs) \<Rightarrow> (None, evs)
      | (Some (Inl e), t, evs) \<Rightarrow> (Some (Inl e), evs)
      | (Some (Inr ok), t, evs) \<Rightarrow>
          if exitCode b t \<noteq> None then (Some (Inl (Error ''Convex process failed to start'')), evs)
          else if deployStatus b \<noteq> Some 0
          then (Some (Inl (Error (''Deploy failed with code '' @ show_code (deployStatus b)))),
                evs @ [RunDeploy projectDir])
          else (Some (Inr ()), evs @ [RunDeploy projectDir]))"

text \<open>
  Calls awaited one after the other: the first that fails throws, and the later ones are
  not made. The result is the error thrown (if any) and the calls that succeeded.
\<close>

fun perform ::
  "(backend_event \<Rightarrow> string option) \<Rightarrow> backend_event list \<Rightarrow> js_error option \<times> backend_event list" where
  "perform faults [] = (None, [])"
| "perform faults (call # calls) =
     (case faults call of
        Some msg \<Rightarrow> (Some (Error msg), [])
      | None \<Rightarrow>
          (case perform faults calls of (failure, succeeded) \<Rightarrow> (failure, call # succeeded)))"

text \<open>
  \<^verbatim>\<open>deploy\<close>: the acquisition, which stands before the \<^verbatim>\<open>try\<close> block (an error there
  leaves the function at once); the \<^verbatim>\<open>try\<close> body; and the \<^verbatim>\<open>finally\<close> block, which runs
  whenever the body is left: the signal, then the two closes, awaited in turn. An error
  thrown in the \<^verbatim>\<open>finally\<close> block replaces the outcome of the body.
\<close>

definition deploy :: "(string \<Rightarrow> backend) \<Rightarrow> string \<Rightarrow> (js_error + unit) option \<times> backend_event list" where
  "deploy backends outputDir =
     (let projectDir = join [outputDir, ''project''];
          backendDir = join [outputDir, ''backend''];
          storageDir = join [backendDir, ''convex_local_storage''];
          b = backends backendDir;
          (failure, acquired) =
             perform (fault b)
               [MkdirP backendDir, MkdirP storageDir,
                OpenLog (join [backendDir, ''backend.stdout.log'']),
                OpenLog (join [backendDir, ''backend.stderr.log'']),
                SpawnBackend backendDir]
      in case failure of
           Some e \<Rightarrow> (Some (Inl e), acquired)
         | None \<Rightarrow>
             (case deploy_body b projectDir of
                (None, evs) \<Rightarrow> (None, acquired @ evs)
              | (Some x, evs) \<Rightarrow>
                  (case perform (fault b) [CloseStdout, CloseStderr] of
                     (Some e, closed) \<Rightarrow> (Some (Inl e), acquired @ evs @ Kill # closed)
                   | (None, closed) \<Rightarrow> (Some x, acquired @ evs @ Kill # closed))))"

section \<open>main.ts\<close>

record options =
  force :: bool
  evalsDir :: string
  outputDir :: "string option"
  testFilter :: "(string \<Rightarrow> bool) option"
  skipGeneration :: bool
  skipEvaluation :: bool
  concurrency :: string
  reportPath :: "string option"

text \<open>
  The world the harness runs in: the environment variable, the revision \<^verbatim>\<open>git\<close> prints,
  directory listings (\<open>Inl\<close> when \<^verbatim>\<open>readdirSync\<close> throws), and the collaborators of the
  other modules. The outcome of a command is a function of the directory it runs in.
\<close>

record world =
  apiKey :: "string option"
  gitRev :: string
  readdirSync :: "string \<Rightarrow> js_error + string list"
  gen :: generator
  tools :: toolchain
  backends :: "string \<Rightarrow> backend"

subsection \<open>Discovery\<close>

text \<open>
  The callback handed to \<^verbatim>\<open>filter\<close> returns an array: the (category, test) pairs of a
  category, or the empty array when the category cannot be listed. \<^verbatim>\<open>filter\<close> keeps an
  element when the callback's value is truthy, and every array is. \<^verbatim>\<open>flat\<close> leaves an
  array of strings as it is, and \<^verbatim>\<open>sort\<close> without a comparator orders strings by their
  code units.
\<close>

definition listTests :: "world \<Rightarrow> options \<Rightarrow> string \<Rightarrow> (string \<times> string) list" where
  "listTests w opts category =
     (case readdirSync w (join [evalsDir opts, category]) of
        Inl e \<Rightarrow> []
      | Inr names \<Rightarrow>
          map (\<lambda>test. (category, test))
            (filter (\<lambda>test. case testFilter opts of None \<Rightarrow> True | Some re \<Rightarrow> re test) names))"

definition truthy_array :: "'a list \<Rightarrow> bool" where
  "truthy_array xs = True"

definition flat :: "string list \<Rightarrow> string list" where
  "flat xs = xs"

definition discover :: "world \<Rightarrow> options \<Rightarrow> js_error + string list" where
  "discover w opts =
     (case readdirSync w (evalsDir opts) of
        Inl e \<Rightarrow> Inl e
      | Inr names \<Rightarrow>
          Inr (sort (flat (filter (\<lambda>category. truthy_array (listTests w opts category)) names))))"

text \<open>
  \<^verbatim>\<open>const [category, test] = s\<close> on a string \<open>s\<close>: its first and second character, each
  \<^verbatim>\<open>undefined\<close> (\<open>None\<close>) when the string is too short.
\<close>

fun destructure :: "string \<Rightarrow> string option \<times> string option" where
  "destructure [] = (None, None)"
| "destructure [c] = (Some [c], None)"
| "destructure (c # d # rest) = (Some [c], Some [d])"

subsection \<open>Generation phase\<close>

definition generateOne :: "world \<Rightarrow> string \<Rightarrow> string \<Rightarrow> string \<Rightarrow> (js_error + nat) \<times> fs_op list" where
  "generateOne w evals outDir t =
     (case destructure t of
        (category, test) \<Rightarrow>
          (case join_args [Some evals, category, test] of
             Inl e \<Rightarrow> (Inl e, [])
           | Inr testDir \<Rightarrow> generateTest (gen w) testDir outDir))"

subsection \<open>Evaluation phase\<close>

record stage_outcome =
  status :: string
  error :: "string option"

record report_entry =
  category :: string
  test :: string
  setup_entry :: "stage_outcome option"
  typecheck :: "stage_outcome option"
  lint :: "stage_outcome option"
  deploy_entry :: "stage_outcome option"

datatype stage = Setup | Typecheck | Lint | Deploy

datatype event = Attempt stage | Backend backend_event | Recorded stage string

text \<open>
  The state of one project's pipeline: the report entry, \<^verbatim>\<open>allOk\<close>, and the events so
  far. \<open>attempt_stage\<close> is one \<^verbatim>\<open>try\<close>/\<^verbatim>\<open>catch\<close> block of the loop body: the stage runs, and
  its outcome is stored in the entry; \<^verbatim>\<open>String(e)\<close> in the \<^verbatim>\<open>catch\<close> block may throw
  itself, which leaves the loop. A stage that never returns leaves the result \<open>None\<close>.
\<close>

type_synonym pipeline = "report_entry \<times> bool \<times> event list"

fun set_stage :: "stage \<Rightarrow> stage_outcome \<Rightarrow> report_entry \<Rightarrow> report_entry" where
  "set_stage Setup x entry = entry\<lparr>setup_entry := Some x\<rparr>"
| "set_stage Typecheck x entry = entry\<lparr>typecheck := Some x\<rparr>"
| "set_stage Lint x entry = entry\<lparr>lint := Some x\<rparr>"
| "set_stage Deploy x entry = entry\<lparr>deploy_entry := Some x\<rparr>"

definition attempt_stage ::
  "stage \<Rightarrow> (js_error + unit) option \<times> backend_event list \<Rightarrow> pipeline \<Rightarrow> (js_error + unit) option \<times> pipeline" where
  "attempt_stage s run st =
     (case st of (entry, allOk, evs) \<Rightarrow>
       (case run of
          (None, inner) \<Rightarrow> (None, (entry, allOk, evs @ Attempt s # map Backend inner))
        | (Some (Inr u), inner) \<Rightarrow>
            (Some (Inr ()),
             (set_stage s \<lparr>status = ''ok'', error = None\<rparr> entry, allOk,
              evs @ Attempt s # map Backend inner @ [Recorded s ''ok'']))
        | (Some (Inl e), inner) \<Rightarrow>
            (case String_of e of
               Inl t \<Rightarrow> (Some (Inl t), (entry, allOk, evs @ Attempt s # map Backend inner))
             | Inr msg \<Rightarrow>
                 (Some (Inr ()),
                  (set_stage s \<lparr>status = ''failed'', error = Some msg\<rparr> entry, False,
                   evs @ Attempt s # map Backend inner @ [Recorded s ''failed''])))))"

definition and_then ::
  "(js_error + unit) option \<times> pipeline \<Rightarrow> (pipeline \<Rightarrow> (js_error + unit) option \<times> pipeline) \<Rightarrow>
   (js_error + unit) option \<times> pipeline" where
  "and_then r f = (case r of (Some (Inr u), st) \<Rightarrow> f st | _ \<Rightarrow> r)"

definition setup_ok :: "report_entry \<Rightarrow> bool" where
  "setup_ok entry = (case setup_entry entry of None \<Rightarrow> False | Some x \<Rightarrow> status x = ''ok'')"

definition evalProject :: "world \<Rightarrow> string \<Rightarrow> string \<Rightarrow> string \<Rightarrow> (js_error + unit) option \<times> pipeline" where
  "evalProject w testOutputDir cat tst =
     (let reportEntry = \<lparr>category = cat, test = tst, setup_entry = None, typecheck = None,
                          lint = None, deploy_entry = None\<rparr>
      in and_then (attempt_stage Setup (Some (setupJs (tools w) testOutputDir), []) (reportEntry, True, []))
           (\<lambda>st. case st of (entry, allOk, evs) \<Rightarrow>
              if setup_ok entry then
                and_then (attempt_stage Typecheck (Some (typecheckJs (tools w) testOutputDir), []) st)
                  (\<lambda>st. and_then (attempt_stage Lint (Some (lintJs (tools w) testOutputDir), []) st)
                    (\<lambda>st. attempt_stage Deploy (deploy (backends w) testOutputDir) st))
              else (Some (Inr ()), st)))"

text \<open>The stages attempted and the stages recorded in an event log, in order.\<close>

definition attempted :: "event list \<Rightarrow> stage list" where
  "attempted evs = concat (map (\<lambda>ev. case ev of Attempt s \<Rightarrow> [s] | _ \<Rightarrow> []) evs)"

definition recorded :: "event list \<Rightarrow> stage list" where
  "recorded evs = concat (map (\<lambda>ev. case ev of Recorded s x \<Rightarrow> [s] | _ \<Rightarrow> []) evs)"

definition failed :: "stage_outcome option \<Rightarrow> bool" where
  "failed x = (case x of None \<Rightarrow> False | Some y \<Rightarrow> status y = ''failed'')"

definition any_failed :: "report_entry \<Rightarrow> bool" where
  "any_failed entry =
     (failed (setup_entry entry) \<or> failed (typecheck entry) \<or> failed (lint entry) \<or>
      failed (deploy_entry entry))"

text \<open>
  The \<^verbatim>\<open>for\<close> loop over the discovered tests, with \<^verbatim>\<open>report\<close> and \<^verbatim>\<open>anyFailed\<close>.
  \<^verbatim>\<open>join\<close> throws when the destructured name is \<^verbatim>\<open>undefined\<close>.
\<close>

fun evaluate ::
  "world \<Rightarrow> string \<Rightarrow> string list \<Rightarrow> report_entry list \<Rightarrow> bool \<Rightarrow> event list \<Rightarrow>
   (js_error + unit) option \<times> report_entry list \<times> bool \<times> event list" where
  "evaluate w outDir [] report anyFailed evs = (Some (Inr ()), report, anyFailed, evs)"
| "evaluate w outDir (t # ts) report anyFailed evs =
     (case destructure t of
        (cat, tst) \<Rightarrow>
          (case join_args [Some outDir, Some ''evals'', cat, tst] of
             Inl e \<Rightarrow> (Some (Inl e), report, anyFailed, evs)
           | Inr testOutputDir \<Rightarrow>
               (case evalProject w testOutputDir (the cat) (the tst) of
                  (Some (Inr u), (entry, allOk, pevs)) \<Rightarrow>
                    evaluate w outDir ts (report @ [entry]) (anyFailed \<or> \<not> allOk) (evs @ pevs)
                | (r, (entry, allOk, pevs)) \<Rightarrow> (r, report, anyFailed, evs @ pevs))))"

subsection \<open>main and the entry point\<close>

text \<open>
  What a run leaves behind: how the promise of \<^verbatim>\<open>main\<close> settles (\<open>None\<close>: it never does),
  what each generation did, the report array, the report file written (path and content),
  and the events of the evaluation phase. Removing and creating the output directory and
  writing the report file are taken to succeed.
\<close>

record run =
  settled :: "(js_error + unit) option"
  generation :: "((js_error + nat) \<times> fs_op list) list"
  report :: "report_entry list"
  reportFile :: "(string \<times> report_entry list) option"
  events :: "event list"

definition stopped :: "js_error \<Rightarrow> run" where
  "stopped e = \<lparr>settled = Some (Inl e), generation = [], report = [], reportFile = None,
                 events = []\<rparr>"

text \<open>The output directory: the option, or \<open>output-\<close> and the current revision.\<close>

definition outputDir_of :: "options \<Rightarrow> world \<Rightarrow> string" where
  "outputDir_of opts w =
     (if outputDir opts = None \<or> outputDir opts = Some []
      then ''output-'' @ trim (gitRev w) else the (outputDir opts))"

definition main :: "options \<Rightarrow> world \<Rightarrow> run" where
  "main opts w =
     (if apiKey w = None \<or> apiKey w = Some [] then stopped (Error ''ANTHROPIC_API_KEY is not set'')
      else
        let outDir = outputDir_of opts w
        in case discover w opts of
             Inl e \<Rightarrow> stopped e
           | Inr tests \<Rightarrow>
               let gens = (if skipGeneration opts then []
                           else map (generateOne w (evalsDir opts) outDir) tests)
               in if \<exists>g \<in> set gens. isl (fst g)
                  then (stopped (Error ''Generation failed.''))\<lparr>generation := gens\<rparr>
                  else if skipEvaluation opts
                  then \<lparr>settled = Some (Inr ()), generation = gens, report = [], reportFile = None,
                        events = []\<rparr>
                  else
                    (case evaluate w outDir tests [] False [] of
                       (Some (Inr u), rep, anyFailed, evs) \<Rightarrow>
                         \<lparr>settled = (if anyFailed then Some (Inl (Error ''Evaluation failed.''))
                                     else Some (Inr ())),
                          generation = gens, report = rep,
                          reportFile = (case reportPath opts of
                                          None \<Rightarrow> None
                                        | Some p \<Rightarrow> if p = [] then None else Some (p, rep)),
                          events = evs\<rparr>
                     | (r, rep, anyFailed, evs) \<Rightarrow>
                         \<lparr>settled = r, generation = gens, report = rep, reportFile = None,
                          events = evs\<rparr>))"

text \<open>
  The last line of the module, \<^verbatim>\<open>main().catch(console.error)\<close>: a rejection is handled
  by printing it. Nothing in the program assigns an exit status or ends the process, so
  once \<^verbatim>\<open>main\<close> has settled the process ends with the status of a normal end, 0.
\<close>

record process_end =
  printed :: "js_error list"
  exitStatus :: "int option"

definition entrypoint :: "options \<Rightarrow> world \<Rightarrow> process_end" where
  "entrypoint opts w =
     (case settled (main opts w) of
        None \<Rightarrow> \<lparr>printed = [], exitStatus = None\<rparr>
      | Some (Inl e) \<Rightarrow> \<lparr>printed = [e], exitStatus = Some 0\<rparr>
      | Some (Inr u) \<Rightarrow> \<lparr>printed = [], exitStatus = Some 0\<rparr>)"

section \<open>Environments in which the evaluation loop runs through\<close>

text \<open>
  The loop body is left early in two ways only: \<^verbatim>\<open>String(e)\<close> throws in a \<^verbatim>\<open>catch\<close> block,
  or the probe never settles. \<open>printable\<close> says that \<^verbatim>\<open>String(e)\<close> returns; \<open>settles\<close>
  that the description of the probe holds a successful request, or at least 10002
  requests of at least a millisecond each; \<open>well_behaved\<close> that a discovered name has two
  characters and that, in its output directory, what the linter and \<^verbatim>\<open>fetch\<close> throw can be
  printed and the probe settles.
\<close>

definition printable :: "js_error \<Rightarrow> bool" where
  "printable e = (\<not> isl (String_of e))"

definition settles :: "attempt list \<Rightarrow> bool" where
  "settles as =
     ((\<exists>a\<in>set as. fetch_failure (reply a) = None) \<or>
      ((\<forall>a\<in>set as. 1 \<le> fetch_ms a) \<and> 10002 \<le> length as))"

definition well_behaved :: "world \<Rightarrow> string \<Rightarrow> string \<Rightarrow> bool" where
  "well_behaved w outDir t =
     (case destructure t of
        (Some c, Some x) \<Rightarrow>
          (let dir = join [outDir, ''evals'', c, x];
               b = backends w (join [dir, ''backend''])
           in (case lintJs (tools w) dir of Inl e \<Rightarrow> printable e | Inr u \<Rightarrow> True) \<and>
              (\<forall>a\<in>set (attempts b). case reply a of Refused e \<Rightarrow> printable e | Status n \<Rightarrow> True) \<and>
              settles (attempts b))
      | _ \<Rightarrow> False)"

section \<open>Concrete inputs\<close>

text \<open>
  A generator whose response holds two file tags: a package manifest wrapped in
  whitespace, and a path that climbs out of the project directory.
\<close>

definition gen_escape :: generator where
  "gen_escape =
     \<lparr>readPrompt = (\<lambda>p. Inr ''task''),
      createMessage = (\<lambda>p. Inr [TextBlock ''x'']),
      stringify = (\<lambda>c. ''[]''),
      fileTags = (\<lambda>t. [\<lparr>path_attr = Some ''package.json'', text_of = '' {} ''\<rparr>,
                        \<lparr>path_attr = Some ''../../etc/passwd'', text_of = ''x''\<rparr>]),
      fsFault = (\<lambda>op. None)\<rparr>"

text \<open>
  Two more responses, of one tag each: a path that leaves the project directory for a
  sibling directory whose name extends the project directory's, and the path \<^verbatim>\<open>.\<close>, which
  resolves to the project directory itself.
\<close>

definition gen_sibling :: generator where
  "gen_sibling = gen_escape\<lparr>fileTags := (\<lambda>t. [\<lparr>path_attr = Some ''../project-evil/x.ts'', text_of = ''x''\<rparr>])\<rparr>"

definition gen_dot :: generator where
  "gen_dot = gen_escape\<lparr>fileTags := (\<lambda>t. [\<lparr>path_attr = Some ''.'', text_of = ''x''\<rparr>])\<rparr>"

text \<open>A response that names \<^verbatim>\<open>a\<close> as a file and then as a directory.\<close>

definition gen_nested :: generator where
  "gen_nested = gen_escape\<lparr>fileTags := (\<lambda>t. [\<lparr>path_attr = Some ''a'', text_of = ''x''\<rparr>,
                                               \<lparr>path_attr = Some ''a/b'', text_of = ''y''\<rparr>])\<rparr>"

text \<open>
  A toolchain where installation, code generation and type checking succeed and the
  linter exits with status 2, printing a JSON array with one record that has a
  \<open>source\<close> field: \<^verbatim>\<open>[{"filePath":"a.ts","source":"x"}]\<close>.
\<close>

definition quoted :: "string \<Rightarrow> string" where
  "quoted s = CHR 0x22 # s @ [CHR 0x22]"

definition lint_stdout :: string where
  "lint_stdout = ''[{'' @ quoted ''filePath'' @ '':'' @ quoted ''a.ts'' @ '','' @
                 quoted ''source'' @ '':'' @ quoted ''x'' @ ''}]''"

definition tools_lint :: toolchain where
  "tools_lint =
     \<lparr>install = (\<lambda>d. Some 0),
      codegen = (\<lambda>d. Some 0),
      tsc = (\<lambda>d. (Some 0, [])),
      eslint = (\<lambda>d. (Some 2, lint_stdout)),
      JSON_parse = (\<lambda>s. if s = lint_stdout
                         then Some (JArr [JObj [(''filePath'', JStr ''a.ts''), (''source'', JStr ''x'')]])
                         else None)\<rparr>"

text \<open>A backend that answers the first probe and accepts the deploy.\<close>

definition backend_ready :: backend where
  "backend_ready =
     \<lparr>started = 0,
      attempts = [\<lparr>fetch_ms = 5, reply = Status 200, timer_lag = 0\<rparr>],
      exits = None,
      deployStatus = Some 0,
      fault = (\<lambda>op. None)\<rparr>"

text \<open>
  An evaluation root with one category \<open>basic\<close> holding one test \<open>echo\<close>; generation is
  skipped and a report path is given.
\<close>

definition world_basic :: world where
  "world_basic =
     \<lparr>apiKey = Some ''key'',
      gitRev = ''abc'',
      readdirSync = (\<lambda>d. if d = ''evals'' then Inr [''basic'']
                         else if d = ''evals/basic'' then Inr [''echo'']
                         else Inl (Error ''ENOENT'')),
      gen = gen_escape,
      tools = tools_lint,
      backends = (\<lambda>d. backend_ready)\<rparr>"

definition opts_basic :: options where
  "opts_basic =
     \<lparr>force = False, evalsDir = ''evals'', outputDir = Some ''out'', testFilter = None,
      skipGeneration = True, skipEvaluation = False, concurrency = ''4'',
      reportPath = Some ''report.json''\<rparr>"

text \<open>The report entry this world leads to.\<close>

definition entry_basic :: report_entry where
  "entry_basic =
     \<lparr>category = ''b'', test = ''a'',
      setup_entry = Some \<lparr>status = ''ok'', error = None\<rparr>,
      typecheck = Some \<lparr>status = ''ok'', error = None\<rparr>,
      lint = Some \<lparr>status = ''failed'', error = Some (''Linting failed'' @ [CHR 0x0A] @ ''[object Object]'')\<rparr>,
      deploy_entry = Some \<lparr>status = ''ok'', error = None\<rparr>\<rparr>"

text \<open>
  The same world with a linter that exits with status 2 and prints a JSON string,
  \<^verbatim>\<open>"abc"\<close>.
\<close>

definition tools_lint_string :: toolchain where
  "tools_lint_string =
     tools_lint\<lparr>eslint := (\<lambda>d. (Some 2, quoted ''abc'')),
                JSON_parse := (\<lambda>s. if s = quoted ''abc'' then Some (JStr ''abc'') else None)\<rparr>"

definition world_lint_string :: world where
  "world_lint_string = world_basic\<lparr>tools := tools_lint_string\<rparr>"

text \<open>
  The same world with a backend for which opening the second log file is rejected, and
  with one for which closing the first log file is rejected.
\<close>

definition backend_open_fails :: backend where
  "backend_open_fails =
     backend_ready\<lparr>fault := (\<lambda>op. if op = OpenLog ''out/evals/b/a/backend/backend.stderr.log''
                                  then Some ''EMFILE: too many open files'' else None)\<rparr>"

definition backend_close_fails :: backend where
  "backend_close_fails =
     backend_ready\<lparr>fault := (\<lambda>op. if op = CloseStdout then Some ''EIO: i/o error, close''
                                  else None)\<rparr>"

definition world_open_fails :: world where
  "world_open_fails = world_basic\<lparr>backends := (\<lambda>d. backend_open_fails)\<rparr>"

definition world_close_fails :: world where
  "world_close_fails = world_basic\<lparr>backends := (\<lambda>d. backend_close_fails)\<rparr>"

text \<open>The same world with a dependency installation that exits with status 1.\<close>

definition world_install_fails :: world where
  "world_install_fails = world_basic\<lparr>tools := tools_lint\<lparr>install := (\<lambda>d. Some 1)\<rparr>\<rparr>"

text \<open>
  A backend whose process has exited with status 1 before the probe starts; nothing
  listens on the port, each request is refused after one millisecond.
\<close>

definition refused :: attempt where
  "refused = \<lparr>fetch_ms = 1, reply = Refused (TypeError ''fetch failed''), timer_lag = 0\<rparr>"

definition backend_exited :: backend where
  "backend_exited =
     \<lparr>started = 0,
      attempts = [refused, refused, refused, refused, refused, refused, refused, refused],
      exits = Some (0, 1),
      deployStatus = Some 0,
      fault = (\<lambda>op. None)\<rparr>"

text \<open>
  A probe whose first request is refused at once and whose second request is refused
  after fifteen seconds.
\<close>

definition slow_attempts :: "attempt list" where
  "slow_attempts =
     [\<lparr>fetch_ms = 0, reply = Refused (TypeError ''fetch failed''), timer_lag = 0\<rparr>,
      \<lparr>fetch_ms = 15000, reply = Refused (TypeError ''fetch failed''), timer_lag = 0\<rparr>]"

text \<open>A target that never answers: 10002 refused requests of one millisecond each.\<close>

definition never_ready :: "attempt list" where
  "never_ready =
     [refused, refused, refused, refused, refused, refused, refused, refused] @
     replicate 9994 refused"

text \<open>The options of the basic run, with the generation phase switched on.\<close>

definition opts_generate :: options where
  "opts_generate = opts_basic\<lparr>skipGeneration := False\<rparr>"

section \<open>Generated files\<close>




subsection \<open>One pass of the loop\<close>







subsection \<open>What is written\<close>



subsection \<open>The concrete generator\<close>

lemma join_ex1: "join [''out'', ''project''] = ''out/project''"
  by (simp add: join_def normalize_path_def Let_def)

lemma join_ex2: "join [''out/project'', ''package.json''] = ''out/project/package.json''"
  by (simp add: join_def normalize_path_def Let_def)

lemma join_ex3: "join [''out/project'', ''../../etc/passwd''] = ''etc/passwd''"
  by (simp add: join_def normalize_path_def Let_def)

lemma join_ex5: "join [''out/project/package.json'', ''..''] = ''out/project''"
  by (simp add: join_def normalize_path_def Let_def)

lemma trim_ex: "trim '' {} '' = ''{}''"
  by (simp add: trim_def is_ws_def)


lemma generateTest_escape_run:
  "generateTest gen_escape ''evals/b/a'' ''out'' =
     (Inl (Error ''File path etc/passwd is not underneath out/project''),
      [Mkdir ''out/project'', Mkdir ''out/project'',
       WriteFile ''out/project/package.json'' ''{}''])"
  by (simp add: generateTest_def gen_escape_def join_ex1 join_ex2 join_ex3 join_ex5 trim_ex
        startsWith_def mkdir_def writeFile_def below_file_def is_file_def is_directory_def under_def Let_def)

lemma generateTest_escape:
  "fst (generateTest gen_escape ''evals/b/a'' ''out'') =
     Inl (Error ''File path etc/passwd is not underneath out/project'')"
  by (simp add: generateTest_escape_run)


subsection \<open>A path that leaves the project directory\<close>



lemma written_iff: "(p, c) \<in> set (written ops) \<longleftrightarrow> WriteFile p c \<in> set ops"
  by (induction ops) (auto simp: written_def split: fs_op.splits)



text \<open>
  The contract of the generation collaborator is stricter than the test the loop makes:
  a path strictly inside the project directory begins with the project directory's path,
  so a path that does not begin with it has left the project directory.
\<close>

lemma startsWith_append: "startsWith p (a @ b) \<Longrightarrow> startsWith p a"
proof -
  assume "startsWith p (a @ b)"
  then have eq: "take (length a + length b) p = a @ b" by (simp add: startsWith_def)
  have "take (length a) p = take (length a) (take (length a + length b) p)" by (simp add: min_def)
  also have "\<dots> = a" by (simp only: eq) simp
  finally show ?thesis by (simp add: startsWith_def)
qed

lemma strictly_inside_startsWith: "strictly_inside root p \<Longrightarrow> startsWith p root"
  unfolding strictly_inside_def using startsWith_append by blast




subsection \<open>What the check lets through\<close>

text \<open>
  The check compares strings. A path that leaves the project directory for a sibling
  whose name extends that of the project directory passes it, and the file is written
  outside the project directory.
\<close>

lemma join_ex6: "join [''out/project'', ''../project-evil/x.ts''] = ''out/project-evil/x.ts''"
  by (simp add: join_def normalize_path_def Let_def)

lemma join_ex7: "join [''out/project-evil/x.ts'', ''..''] = ''out/project-evil''"
  by (simp add: join_def normalize_path_def Let_def)

lemma sibling_directory_passes_check:
  "\<not> strictly_inside ''out/project'' (join [''out/project'', ''../project-evil/x.ts'']) \<and>
   startsWith (join [''out/project'', ''../project-evil/x.ts'']) ''out/project'' \<and>
   generateTest gen_sibling ''evals/b/a'' ''out'' =
     (Inr 1, [Mkdir ''out/project'', Mkdir ''out/project-evil'',
              WriteFile ''out/project-evil/x.ts'' ''x''])"
  by (simp add: generateTest_def gen_sibling_def gen_escape_def join_ex1 join_ex6 join_ex7
        strictly_inside_def startsWith_def trim_def is_ws_def
        mkdir_def writeFile_def below_file_def is_file_def is_directory_def under_def Let_def)

text \<open>
  The path \<^verbatim>\<open>.\<close> resolves to the project directory itself, which is not strictly inside
  it; the check passes, and the write is rejected because the path is a directory.
\<close>

lemma join_ex8: "join [''out/project'', ''.''] = ''out/project''"
  by (simp add: join_def normalize_path_def Let_def)

lemma join_ex9: "join [''out/project'', ''..''] = ''out''"
  by (simp add: join_def normalize_path_def Let_def)

lemma project_directory_as_file:
  "\<not> strictly_inside ''out/project'' (join [''out/project'', ''.'']) \<and>
   generateTest gen_dot ''evals/b/a'' ''out'' =
     (Inl (Error ''EISDIR: illegal operation on a directory, open out/project''),
      [Mkdir ''out/project'', Mkdir ''out''])"
  by (simp add: generateTest_def gen_dot_def gen_escape_def join_ex1 join_ex8 join_ex9
        strictly_inside_def startsWith_def trim_def is_ws_def
        mkdir_def writeFile_def below_file_def is_file_def is_directory_def under_def Let_def)

text \<open>
  A tag that names as a directory what an earlier tag has written as a file stops the
  loop as well: the directory cannot be made.
\<close>

lemma join_ex10: "join [''out/project'', ''a''] = ''out/project/a''"
  by (simp add: join_def normalize_path_def Let_def)

lemma join_ex11: "join [''out/project/a'', ''..''] = ''out/project''"
  by (simp add: join_def normalize_path_def Let_def)

lemma join_ex12: "join [''out/project'', ''a/b''] = ''out/project/a/b''"
  by (simp add: join_def normalize_path_def Let_def)

lemma join_ex13: "join [''out/project/a/b'', ''..''] = ''out/project/a''"
  by (simp add: join_def normalize_path_def Let_def)

lemma file_as_directory:
  "generateTest gen_nested ''evals/b/a'' ''out'' =
     (Inl (Error ''EEXIST: file already exists, mkdir out/project/a''),
      [Mkdir ''out/project'', Mkdir ''out/project'', WriteFile ''out/project/a'' ''x''])"
  by (simp add: generateTest_def gen_nested_def gen_escape_def join_ex1 join_ex10 join_ex11
        join_ex12 join_ex13 startsWith_def trim_def is_ws_def
        mkdir_def writeFile_def below_file_def is_file_def is_directory_def under_def Let_def)

section \<open>A run on the basic world\<close>

lemma lintJs_basic:
  "lintJs tools_lint ''out/evals/b/a'' =
     Inl (VerificationError ''Linting failed'' (JArr [JObj [(''filePath'', JStr ''a.ts'')]]))"
  by (simp add: lintJs_def tools_lint_def Let_def)

lemma deploy_ready:
  "deploy (\<lambda>d. backend_ready) ''out/evals/b/a'' =
     (Some (Inr ()),
      [MkdirP ''out/evals/b/a/backend'', MkdirP ''out/evals/b/a/backend/convex_local_storage'',
       OpenLog ''out/evals/b/a/backend/backend.stdout.log'',
       OpenLog ''out/evals/b/a/backend/backend.stderr.log'',
       SpawnBackend ''out/evals/b/a/backend'', Fetch 5, RunDeploy ''out/evals/b/a/project'',
       Kill, CloseStdout, CloseStderr])"
  by (simp add: deploy_def deploy_body_def healthCheck_def backend_ready_def exitCode_def
        join_def normalize_path_def Let_def)

lemma setupJs_basic: "setupJs tools_lint d = Inr ()"
  by (simp add: setupJs_def tools_lint_def)

lemma typecheckJs_basic: "typecheckJs tools_lint d = Inr ()"
  by (simp add: typecheckJs_def tools_lint_def)

lemma world_basic_sel:
  "tools world_basic = tools_lint" "backends world_basic = (\<lambda>d. backend_ready)"
  "apiKey world_basic = Some ''key''"
  by (simp_all add: world_basic_def)

lemma opts_basic_sel:
  "evalsDir opts_basic = ''evals''" "outputDir opts_basic = Some ''out''"
  "testFilter opts_basic = None" "skipGeneration opts_basic" "\<not> skipEvaluation opts_basic"
  "reportPath opts_basic = Some ''report.json''"
  by (simp_all add: opts_basic_def)

lemma evalProject_basic:
  "evalProject world_basic ''out/evals/b/a'' ''b'' ''a'' =
     (Some (Inr ()), entry_basic, False,
      [Attempt Setup, Recorded Setup ''ok'', Attempt Typecheck, Recorded Typecheck ''ok'',
       Attempt Lint, Recorded Lint ''failed'', Attempt Deploy] @
      map Backend (snd (deploy (\<lambda>d. backend_ready) ''out/evals/b/a'')) @
      [Recorded Deploy ''ok''])"
  by (simp add: evalProject_def world_basic_sel setupJs_basic typecheckJs_basic lintJs_basic
        deploy_ready and_then_def attempt_stage_def setup_ok_def entry_basic_def
        array_join_def Let_def)

lemma discover_basic: "discover world_basic opts_basic = Inr [''basic'']"
  by (simp add: discover_def world_basic_def opts_basic_sel truthy_array_def flat_def)

lemma join_ex4: "join_args [Some ''out'', Some ''evals'', Some ''b'', Some ''a''] = Inr ''out/evals/b/a''"
  by (simp add: join_args_def join_def normalize_path_def Let_def)

lemma main_basic:
  "main opts_basic world_basic =
     \<lparr>settled = Some (Inl (Error ''Evaluation failed.'')), generation = [],
      report = [entry_basic], reportFile = Some (''report.json'', [entry_basic]),
      events = snd (snd (snd (evalProject world_basic ''out/evals/b/a'' ''b'' ''a'')))\<rparr>"
  by (simp add: main_def outputDir_of_def discover_basic join_ex4 evalProject_basic opts_basic_sel
        world_basic_sel Let_def)


text \<open>
  C7 on the code: the linter exits with status 2 and prints a JSON array of one record
  with a \<open>source\<close> field. \<^verbatim>\<open>lintJs\<close> rejects with the parsed records, the field removed;
  the \<^verbatim>\<open>catch\<close> block of \<^verbatim>\<open>main\<close> stores \<^verbatim>\<open>String(e)\<close>, the text
  \<open>Linting failed\<close> followed by \<^verbatim>\<open>[object Object]\<close>, not the records; \<^verbatim>\<open>errorStatus\<close> of
  errors.ts would have produced the records.
\<close>

theorem lint_diagnostics_recorded_as_text:
  "lintJs tools_lint ''out/evals/b/a'' =
     Inl (VerificationError ''Linting failed'' (JArr [JObj [(''filePath'', JStr ''a.ts'')]])) \<and>
   lint (fst (snd (evalProject world_basic ''out/evals/b/a'' ''b'' ''a''))) =
     Some \<lparr>status = ''failed'',
           error = Some (''Linting failed'' @ [CHR 0x0A] @ ''[object Object]'')\<rparr> \<and>
   errorStatus (VerificationError ''Linting failed'' (JArr [JObj [(''filePath'', JStr ''a.ts'')]])) =
     Inr (''failed'', Metadata (JArr [JObj [(''filePath'', JStr ''a.ts'')]]))"
  by (simp add: lintJs_basic evalProject_basic entry_basic_def)

text \<open>
  Whatever the categories hold and whatever the test filter is, discovery returns the
  sorted names of the entries of the evaluation root.
\<close>

lemma discover_sorts_root_entries:
  "readdirSync w (evalsDir opts) = Inr names \<Longrightarrow> discover w opts = Inr (sort names)"
  by (simp add: discover_def truthy_array_def flat_def)

text \<open>
  C8 on the code: with one category \<open>basic\<close> holding one test \<open>echo\<close>, the callback
  computes the pair (basic, echo), but \<^verbatim>\<open>filter\<close> keeps the category name itself; the
  discovered list is the list of category names, also under a test filter that matches
  nothing, and the evaluation loop takes the first two characters of \<open>basic\<close> for the
  category and the test.
\<close>

theorem discovery_yields_category_names:
  "listTests world_basic opts_basic ''basic'' = [(''basic'', ''echo'')] \<and>
   discover world_basic opts_basic = Inr [''basic''] \<and>
   discover world_basic (opts_basic\<lparr>testFilter := Some (\<lambda>t. False)\<rparr>) = Inr [''basic''] \<and>
   map (\<lambda>e. (category e, test e)) (report (main opts_basic world_basic)) = [(''b'', ''a'')]"
  by (simp add: main_basic discover_basic entry_basic_def)
     (simp add: listTests_def discover_def world_basic_def opts_basic_def truthy_array_def flat_def
        join_def normalize_path_def Let_def)

section \<open>The stage pipeline\<close>

lemma attempted_simps:
  "attempted [] = []"
  "attempted (Attempt s # evs) = s # attempted evs"
  "attempted (Recorded s x # evs) = attempted evs"
  "attempted (Backend b # evs) = attempted evs"
  "attempted (xs @ ys) = attempted xs @ attempted ys"
  "attempted (map Backend bs) = []"
  by (induction bs) (simp_all add: attempted_def)

lemma recorded_simps:
  "recorded [] = []"
  "recorded (Attempt s # evs) = recorded evs"
  "recorded (Recorded s x # evs) = s # recorded evs"
  "recorded (Backend b # evs) = recorded evs"
  "recorded (xs @ ys) = recorded xs @ recorded ys"
  "recorded (map Backend bs) = []"
  by (induction bs) (simp_all add: recorded_def)

text \<open>One try/catch block: either the outcome is stored, or the loop is left.\<close>

lemma attempt_stage_cases:
  assumes "attempt_stage s run (entry, allOk, evs) = (r, entry', allOk', evs')"
  obtains
    (stored) st m where "r = Some (Inr ())"
      "entry' = set_stage s \<lparr>status = st, error = m\<rparr> entry"
      "st = ''ok'' \<and> m = None \<or> st = ''failed''"
      "allOk' = (allOk \<and> st = ''ok'')"
      "fst run \<noteq> None"
      "evs' = evs @ Attempt s # map Backend (snd run) @ [Recorded s st]"
  | (left) "r \<noteq> Some (Inr ())" "entry' = entry" "allOk' = allOk"
      "evs' = evs @ Attempt s # map Backend (snd run)"
  using assms
  by (auto simp: attempt_stage_def split: prod.splits option.splits sum.splits)

lemma and_then_left: "r \<noteq> Some (Inr ()) \<Longrightarrow> and_then (r, st) f = (r, st)"
  by (auto simp: and_then_def split: option.splits sum.splits)

lemma and_then_ok: "and_then (Some (Inr ()), st) f = f st"
  by (simp add: and_then_def)

lemma evalProject_shape:
  assumes "evalProject w dir c t = (r, entry, allOk, evs)"
  shows
   "(\<exists>s2 m2 s3 m3 s4 m4.
       r = Some (Inr ()) \<and>
       entry = \<lparr>category = c, test = t, setup_entry = Some \<lparr>status = ''ok'', error = None\<rparr>,
                 typecheck = Some \<lparr>status = s2, error = m2\<rparr>,
                 lint = Some \<lparr>status = s3, error = m3\<rparr>,
                 deploy_entry = Some \<lparr>status = s4, error = m4\<rparr>\<rparr> \<and>
       s2 \<in> {''ok'', ''failed''} \<and> s3 \<in> {''ok'', ''failed''} \<and> s4 \<in> {''ok'', ''failed''} \<and>
       fst (deploy (backends w) dir) \<noteq> None \<and>
       evs = [Attempt Setup, Recorded Setup ''ok'', Attempt Typecheck, Recorded Typecheck s2,
              Attempt Lint, Recorded Lint s3, Attempt Deploy] @
             map Backend (snd (deploy (backends w) dir)) @ [Recorded Deploy s4] \<and>
       allOk = (s2 = ''ok'' \<and> s3 = ''ok'' \<and> s4 = ''ok''))
    \<or> (\<exists>m1.
       r = Some (Inr ()) \<and>
       entry = \<lparr>category = c, test = t, setup_entry = Some \<lparr>status = ''failed'', error = m1\<rparr>,
                 typecheck = None, lint = None, deploy_entry = None\<rparr> \<and>
       evs = [Attempt Setup, Recorded Setup ''failed''] \<and> \<not> allOk)
    \<or> (r \<noteq> Some (Inr ()) \<and> \<not> failed (setup_entry entry) \<and> deploy_entry entry = None \<and>
        recorded evs \<in> {[], [Setup], [Setup, Typecheck], [Setup, Typecheck, Lint]} \<and>
        (Deploy \<in> set (attempted evs) \<longrightarrow> setup_ok entry))"
proof -
  let ?e0 = "\<lparr>category = c, test = t, setup_entry = None, typecheck = None, lint = None,
              deploy_entry = None\<rparr>"
  let ?T = "attempt_stage Typecheck (Some (typecheckJs (tools w) dir), [])"
  let ?L = "attempt_stage Lint (Some (lintJs (tools w) dir), [])"
  let ?D = "attempt_stage Deploy (deploy (backends w) dir)"
  obtain r1 e1 a1 v1 where
    s1: "attempt_stage Setup (Some (setupJs (tools w) dir), []) (?e0, True, []) = (r1, e1, a1, v1)"
    by (rule prod_cases4)
  have run: "(r, entry, allOk, evs) =
      and_then (r1, e1, a1, v1)
        (\<lambda>st. if setup_ok (fst st) then and_then (?T st) (\<lambda>st. and_then (?L st) ?D)
              else (Some (Inr ()), st))"
    using assms s1 by (simp add: evalProject_def case_prod_unfold)
  from s1 show ?thesis
  proof (cases rule: attempt_stage_cases)
    case left
    with run show ?thesis
      by (simp add: and_then_left failed_def recorded_simps attempted_simps)
  next
    case (stored st1 m1)
    note su = stored
    show ?thesis
    proof (cases "st1 = ''ok''")
      case False
      with su run show ?thesis
        by (simp add: and_then_ok setup_ok_def)
    next
      case True
      obtain r2 e2 a2 v2 where s2: "?T (e1, a1, v1) = (r2, e2, a2, v2)"
        by (rule prod_cases4)
      from True su run s2 have run2:
        "(r, entry, allOk, evs) = and_then (r2, e2, a2, v2) (\<lambda>st. and_then (?L st) ?D)"
        by (simp add: and_then_ok setup_ok_def)
      from s2 show ?thesis
      proof (cases rule: attempt_stage_cases)
        case left
        with run2 True su show ?thesis
          by (simp add: and_then_left failed_def setup_ok_def recorded_simps attempted_simps)
      next
        case (stored st2 m2)
        note tc = stored
        obtain r3 e3 a3 v3 where s3: "?L (e2, a2, v2) = (r3, e3, a3, v3)"
          by (rule prod_cases4)
        from tc run2 s3 have run3: "(r, entry, allOk, evs) = and_then (r3, e3, a3, v3) ?D"
          by (simp add: and_then_ok)
        from s3 show ?thesis
        proof (cases rule: attempt_stage_cases)
          case left
          with run3 True su tc show ?thesis
            by (simp add: and_then_left failed_def setup_ok_def recorded_simps attempted_simps)
        next
          case (stored st3 m3)
          note li = stored
          from li run3 have s4: "?D (e3, a3, v3) = (r, entry, allOk, evs)"
            by (simp add: and_then_ok)
          from s4 show ?thesis
          proof (cases rule: attempt_stage_cases)
            case left
            with True su tc li show ?thesis
              by (simp add: failed_def setup_ok_def recorded_simps attempted_simps)
          next
            case (stored st4 m4)
            note de = stored
            have entry_eq: "entry =
                \<lparr>category = c, test = t, setup_entry = Some \<lparr>status = ''ok'', error = m1\<rparr>,
                 typecheck = Some \<lparr>status = st2, error = m2\<rparr>,
                 lint = Some \<lparr>status = st3, error = m3\<rparr>,
                 deploy_entry = Some \<lparr>status = st4, error = m4\<rparr>\<rparr>"
              using True su(2) tc(2) li(2) de(2) by simp
            have evs_eq: "evs =
                [Attempt Setup, Recorded Setup ''ok'', Attempt Typecheck, Recorded Typecheck st2,
                 Attempt Lint, Recorded Lint st3, Attempt Deploy] @
                map Backend (snd (deploy (backends w) dir)) @ [Recorded Deploy st4]"
              using True su(6) tc(6) li(6) de(6) by simp
            have ok_eq: "allOk = (st2 = ''ok'' \<and> st3 = ''ok'' \<and> st4 = ''ok'')"
              using True su(4) tc(4) li(4) de(4) by simp
            show ?thesis
              by (rule disjI1, rule exI [of _ st2], rule exI [of _ m2], rule exI [of _ st3],
                  rule exI [of _ m3], rule exI [of _ st4], rule exI [of _ m4])
                 (use entry_eq evs_eq ok_eq de(1,5) True su(3) tc(3) li(3) de(3) in auto)
          qed
        qed
      qed
    qed
  qed
qed

text \<open>
  What holds of the pipeline of one project: the outcomes are recorded in the order
  setup, typecheck, lint, deploy; after a recorded setup failure nothing else is
  attempted or recorded; deploy is attempted only after a successful setup; and when the
  loop body has run to its end after a successful setup, all four stages have been
  attempted and recorded, whatever the outcomes of typecheck and lint.
\<close>

lemma pipeline_order:
  assumes "evalProject w dir c t = (r, entry, allOk, evs)"
  shows "recorded evs \<in> {[], [Setup], [Setup, Typecheck], [Setup, Typecheck, Lint],
                          [Setup, Typecheck, Lint, Deploy]} \<and>
         (failed (setup_entry entry) \<longrightarrow>
            attempted evs = [Setup] \<and> recorded evs = [Setup] \<and>
            typecheck entry = None \<and> lint entry = None \<and> deploy_entry entry = None) \<and>
         (Deploy \<in> set (attempted evs) \<longrightarrow> setup_ok entry) \<and>
         (r = Some (Inr ()) \<and> setup_ok entry \<longrightarrow>
            attempted evs = [Setup, Typecheck, Lint, Deploy] \<and>
            recorded evs = [Setup, Typecheck, Lint, Deploy] \<and>
            typecheck entry \<noteq> None \<and> lint entry \<noteq> None \<and> deploy_entry entry \<noteq> None)"
  using evalProject_shape [OF assms]
  by (elim disjE exE conjE)
     (auto simp: recorded_simps attempted_simps failed_def setup_ok_def)

lemma show_code_1: "show_code (Some 1) = ''1''"
  by code_simp

text \<open>A dependency installation that exits with status 1: only setup is recorded.\<close>

lemma evalProject_install_fails:
  "evalProject world_install_fails ''out/evals/b/a'' ''b'' ''a'' =
     (Some (Inr ()),
      \<lparr>category = ''b'', test = ''a'',
       setup_entry = Some \<lparr>status = ''failed'', error = Some ''Error: Install failed with code 1''\<rparr>,
       typecheck = None, lint = None, deploy_entry = None\<rparr>,
      False, [Attempt Setup, Recorded Setup ''failed''])"
  by (simp add: evalProject_def world_install_fails_def world_basic_def tools_lint_def
        setupJs_def and_then_def attempt_stage_def setup_ok_def show_code_1 Let_def)

subsection \<open>A lint failure that ends the run\<close>

lemma lintJs_string:
  "lintJs tools_lint_string ''out/evals/b/a'' = Inl (VerificationError ''Linting failed'' (JStr ''abc''))"
  by (simp add: lintJs_def tools_lint_string_def tools_lint_def Let_def)

lemma world_lint_string_sel:
  "tools world_lint_string = tools_lint_string" "backends world_lint_string = (\<lambda>d. backend_ready)"
  "apiKey world_lint_string = Some ''key''"
  by (simp_all add: world_lint_string_def world_basic_def)

lemma setupJs_string: "setupJs tools_lint_string d = Inr ()"
  by (simp add: setupJs_def tools_lint_string_def tools_lint_def)

lemma typecheckJs_string: "typecheckJs tools_lint_string d = Inr ()"
  by (simp add: typecheckJs_def tools_lint_string_def tools_lint_def)

lemma evalProject_lint_string:
  "evalProject world_lint_string ''out/evals/b/a'' ''b'' ''a'' =
     (Some (Inl (TypeError ''this.metadata.join is not a function'')),
      \<lparr>category = ''b'', test = ''a'',
       setup_entry = Some \<lparr>status = ''ok'', error = None\<rparr>,
       typecheck = Some \<lparr>status = ''ok'', error = None\<rparr>,
       lint = None, deploy_entry = None\<rparr>,
      True,
      [Attempt Setup, Recorded Setup ''ok'', Attempt Typecheck, Recorded Typecheck ''ok'',
       Attempt Lint])"
  by (simp add: evalProject_def world_lint_string_sel setupJs_string typecheckJs_string
        lintJs_string and_then_def attempt_stage_def setup_ok_def Let_def)

lemma discover_lint_string: "discover world_lint_string opts_basic = Inr [''basic'']"
  by (simp add: discover_def world_lint_string_def world_basic_def opts_basic_sel
        truthy_array_def flat_def)

text \<open>
  C1 on the code: the stages stand in four \<^verbatim>\<open>try\<close>/\<^verbatim>\<open>catch\<close> blocks, so that a failed
  typecheck or lint does not keep the later stages from running; but the \<^verbatim>\<open>catch\<close> block
  calls \<^verbatim>\<open>String(e)\<close>, and \<^verbatim>\<open>VerificationError.toString\<close> throws when the metadata is not an
  array. Here setup and typecheck succeed and the linter exits with status 2, printing
  the JSON string \<^verbatim>\<open>"abc"\<close>: \<^verbatim>\<open>lintJs\<close> rejects with the string as metadata, the \<^verbatim>\<open>catch\<close>
  block throws a \<^verbatim>\<open>TypeError\<close>, the lint outcome is not recorded, deploy is not attempted,
  the entry does not reach the report, and no report file is written. \<^verbatim>\<open>errorStatus\<close> of
  errors.ts returns an outcome for the same error.
\<close>

theorem lint_failure_blocks_deploy:
  "lintJs tools_lint_string ''out/evals/b/a'' =
     Inl (VerificationError ''Linting failed'' (JStr ''abc'')) \<and>
   String_of (VerificationError ''Linting failed'' (JStr ''abc'')) =
     Inl (TypeError ''this.metadata.join is not a function'') \<and>
   errorStatus (VerificationError ''Linting failed'' (JStr ''abc'')) =
     Inr (''failed'', Metadata (JStr ''abc'')) \<and>
   evalProject world_lint_string ''out/evals/b/a'' ''b'' ''a'' =
     (Some (Inl (TypeError ''this.metadata.join is not a function'')),
      \<lparr>category = ''b'', test = ''a'',
       setup_entry = Some \<lparr>status = ''ok'', error = None\<rparr>,
       typecheck = Some \<lparr>status = ''ok'', error = None\<rparr>,
       lint = None, deploy_entry = None\<rparr>,
      True,
      [Attempt Setup, Recorded Setup ''ok'', Attempt Typecheck, Recorded Typecheck ''ok'',
       Attempt Lint]) \<and>
   main opts_basic world_lint_string =
     \<lparr>settled = Some (Inl (TypeError ''this.metadata.join is not a function'')),
      generation = [], report = [], reportFile = None,
      events = [Attempt Setup, Recorded Setup ''ok'', Attempt Typecheck,
                Recorded Typecheck ''ok'', Attempt Lint]\<rparr>"
  by (simp add: lintJs_string evalProject_lint_string main_def outputDir_of_def
        discover_lint_string join_ex4 opts_basic_sel world_lint_string_sel Let_def)

subsection \<open>Releasing the backend\<close>

lemma perform_error: "fst (perform f calls) = Some e \<Longrightarrow> \<exists>msg. e = Error msg"
  by (induction calls) (auto split: option.splits prod.splits)

lemma perform_no_fault: "\<forall>op. f op = None \<Longrightarrow> perform f calls = (None, calls)"
  by (induction calls) simp_all

text \<open>
  When no file-system or process call is rejected, the \<^verbatim>\<open>finally\<close> block does its work:
  however the \<^verbatim>\<open>try\<close> block of \<^verbatim>\<open>deploy\<close> is left, the last three events are the signal to
  the backend process and the closing of the two log files.
\<close>

lemma deploy_releases:
  assumes "\<forall>op. fault (bs (join [dir, ''backend''])) op = None"
      and "fst (deploy bs dir) = Some res"
  shows "\<exists>body. snd (deploy bs dir) = body @ [Kill, CloseStdout, CloseStderr]"
  using assms
  by (auto simp: deploy_def perform_no_fault Let_def simp del: perform.simps
      split: prod.splits option.splits)

lemma deploy_open_fails:
  "deploy (\<lambda>d. backend_open_fails) ''out/evals/b/a'' =
     (Some (Inl (Error ''EMFILE: too many open files'')),
      [MkdirP ''out/evals/b/a/backend'', MkdirP ''out/evals/b/a/backend/convex_local_storage'',
       OpenLog ''out/evals/b/a/backend/backend.stdout.log''])"
  by (simp add: deploy_def backend_open_fails_def backend_ready_def
        join_def normalize_path_def Let_def)

lemma deploy_close_fails:
  "deploy (\<lambda>d. backend_close_fails) ''out/evals/b/a'' =
     (Some (Inl (Error ''EIO: i/o error, close'')),
      [MkdirP ''out/evals/b/a/backend'', MkdirP ''out/evals/b/a/backend/convex_local_storage'',
       OpenLog ''out/evals/b/a/backend/backend.stdout.log'',
       OpenLog ''out/evals/b/a/backend/backend.stderr.log'',
       SpawnBackend ''out/evals/b/a/backend'', Fetch 5, RunDeploy ''out/evals/b/a/project'',
       Kill])"
  by (simp add: deploy_def deploy_body_def healthCheck_def backend_close_fails_def
        backend_ready_def exitCode_def join_def normalize_path_def Let_def)

lemma evalProject_open_fails:
  "evalProject world_open_fails ''out/evals/b/a'' ''b'' ''a'' =
     (Some (Inr ()),
      entry_basic\<lparr>deploy_entry :=
        Some \<lparr>status = ''failed'', error = Some ''Error: EMFILE: too many open files''\<rparr>\<rparr>,
      False,
      [Attempt Setup, Recorded Setup ''ok'', Attempt Typecheck, Recorded Typecheck ''ok'',
       Attempt Lint, Recorded Lint ''failed'', Attempt Deploy,
       Backend (MkdirP ''out/evals/b/a/backend''),
       Backend (MkdirP ''out/evals/b/a/backend/convex_local_storage''),
       Backend (OpenLog ''out/evals/b/a/backend/backend.stdout.log''),
       Recorded Deploy ''failed''])"
  by (simp add: evalProject_def world_open_fails_def world_basic_def setupJs_basic
        typecheckJs_basic lintJs_basic deploy_open_fails and_then_def attempt_stage_def
        setup_ok_def entry_basic_def array_join_def Let_def)

lemma evalProject_close_fails:
  "evalProject world_close_fails ''out/evals/b/a'' ''b'' ''a'' =
     (Some (Inr ()),
      entry_basic\<lparr>deploy_entry :=
        Some \<lparr>status = ''failed'', error = Some ''Error: EIO: i/o error, close''\<rparr>\<rparr>,
      False,
      [Attempt Setup, Recorded Setup ''ok'', Attempt Typecheck, Recorded Typecheck ''ok'',
       Attempt Lint, Recorded Lint ''failed'', Attempt Deploy,
       Backend (MkdirP ''out/evals/b/a/backend''),
       Backend (MkdirP ''out/evals/b/a/backend/convex_local_storage''),
       Backend (OpenLog ''out/evals/b/a/backend/backend.stdout.log''),
       Backend (OpenLog ''out/evals/b/a/backend/backend.stderr.log''),
       Backend (SpawnBackend ''out/evals/b/a/backend''), Backend (Fetch 5),
       Backend (RunDeploy ''out/evals/b/a/project''), Backend Kill,
       Recorded Deploy ''failed''])"
  by (simp add: evalProject_def world_close_fails_def world_basic_def setupJs_basic
        typecheckJs_basic lintJs_basic deploy_close_fails and_then_def attempt_stage_def
        setup_ok_def entry_basic_def array_join_def Let_def)

text \<open>
  C4 on the code: the \<^verbatim>\<open>finally\<close> block of \<^verbatim>\<open>deploy\<close> signals the process and closes the two
  log files, but it does not cover every raised error. The log files are opened before
  the \<^verbatim>\<open>try\<close> block: when opening the second one is rejected, \<^verbatim>\<open>deploy\<close> throws with the
  first one open, and the deploy outcome is recorded as failed with neither a signal nor
  a close before it. And the closes are awaited one after the other: when closing the
  first log file is rejected, after a deploy command that succeeded, the second one is
  not closed, and the outcome is recorded as failed after the signal alone.
\<close>

theorem log_files_left_open:
  "deploy (\<lambda>d. backend_open_fails) ''out/evals/b/a'' =
     (Some (Inl (Error ''EMFILE: too many open files'')),
      [MkdirP ''out/evals/b/a/backend'', MkdirP ''out/evals/b/a/backend/convex_local_storage'',
       OpenLog ''out/evals/b/a/backend/backend.stdout.log'']) \<and>
   snd (snd (snd (evalProject world_open_fails ''out/evals/b/a'' ''b'' ''a''))) =
     [Attempt Setup, Recorded Setup ''ok'', Attempt Typecheck, Recorded Typecheck ''ok'',
      Attempt Lint, Recorded Lint ''failed'', Attempt Deploy,
      Backend (MkdirP ''out/evals/b/a/backend''),
      Backend (MkdirP ''out/evals/b/a/backend/convex_local_storage''),
      Backend (OpenLog ''out/evals/b/a/backend/backend.stdout.log''),
      Recorded Deploy ''failed''] \<and>
   deploy (\<lambda>d. backend_close_fails) ''out/evals/b/a'' =
     (Some (Inl (Error ''EIO: i/o error, close'')),
      [MkdirP ''out/evals/b/a/backend'', MkdirP ''out/evals/b/a/backend/convex_local_storage'',
       OpenLog ''out/evals/b/a/backend/backend.stdout.log'',
       OpenLog ''out/evals/b/a/backend/backend.stderr.log'',
       SpawnBackend ''out/evals/b/a/backend'', Fetch 5, RunDeploy ''out/evals/b/a/project'',
       Kill]) \<and>
   snd (snd (snd (evalProject world_close_fails ''out/evals/b/a'' ''b'' ''a''))) =
     [Attempt Setup, Recorded Setup ''ok'', Attempt Typecheck, Recorded Typecheck ''ok'',
      Attempt Lint, Recorded Lint ''failed'', Attempt Deploy,
      Backend (MkdirP ''out/evals/b/a/backend''),
      Backend (MkdirP ''out/evals/b/a/backend/convex_local_storage''),
      Backend (OpenLog ''out/evals/b/a/backend/backend.stdout.log''),
      Backend (OpenLog ''out/evals/b/a/backend/backend.stderr.log''),
      Backend (SpawnBackend ''out/evals/b/a/backend''), Backend (Fetch 5),
      Backend (RunDeploy ''out/evals/b/a/project''), Backend Kill,
      Recorded Deploy ''failed'']"
  by (simp add: deploy_open_fails deploy_close_fails evalProject_open_fails
        evalProject_close_fails)

section \<open>The health probe\<close>

lemma sleeps_simps:
  "sleeps [] = []" "sleeps (Fetch t # evs) = sleeps evs" "sleeps (Sleep d # evs) = d # sleeps evs"
  by (simp_all add: sleeps_def)

lemma fetch_times_simps:
  "fetch_times [] = []" "fetch_times (Fetch t # evs) = t # fetch_times evs"
  "fetch_times (Sleep d # evs) = fetch_times evs"
  by (simp_all add: fetch_times_def)

lemma poll_success:
  "fetch_failure (reply a) = None \<Longrightarrow>
   poll d n now (a # rest) = (Some (Inr True), now + int (fetch_ms a), [Fetch (now + int (fetch_ms a))])"
  by (simp add: Let_def)

lemma poll_throw:
  "fetch_failure (reply a) = Some e \<Longrightarrow> d < now + int (fetch_ms a) \<Longrightarrow>
   poll d n now (a # rest) = (Some (Inl e), now + int (fetch_ms a), [Fetch (now + int (fetch_ms a))])"
  by (simp add: Let_def)

lemma poll_retry:
  "fetch_failure (reply a) = Some e \<Longrightarrow> now + int (fetch_ms a) \<le> d \<Longrightarrow>
   poll d n now (a # rest) =
     (let now1 = now + int (fetch_ms a);
          delay = min (100 * 2 ^ n) (d - now1);
          next = poll d (Suc n) (now1 + delay + int (timer_lag a)) rest
      in (fst next, fst (snd next), Fetch now1 # Sleep delay # snd (snd next)))"
  by (simp add: Let_def split: prod.splits)

lemma poll_cases:
  obtains (success) "fetch_failure (reply a) = None"
  | (throw) e where "fetch_failure (reply a) = Some e" "d < now + int (fetch_ms a)"
  | (retry) e where "fetch_failure (reply a) = Some e" "now + int (fetch_ms a) \<le> d"
proof (cases "fetch_failure (reply a)")
  case None
  then show ?thesis by (rule success)
next
  case (Some e)
  show ?thesis
  proof (cases "d < now + int (fetch_ms a)")
    case True
    with Some show ?thesis by (rule throw)
  next
    case False
    then have "now + int (fetch_ms a) \<le> d" by simp
    with Some show ?thesis by (rule retry)
  qed
qed

lemma poll_schedule:
  "k < length (sleeps (snd (snd (poll d n now as)))) \<Longrightarrow>
   k < length (fetch_times (snd (snd (poll d n now as)))) \<and>
   sleeps (snd (snd (poll d n now as))) ! k =
     min (100 * 2 ^ (n + k)) (d - fetch_times (snd (snd (poll d n now as))) ! k) \<and>
   fetch_times (snd (snd (poll d n now as))) ! k \<le> d"
proof (induction as arbitrary: n now k)
  case Nil
  then show ?case by (simp add: sleeps_simps)
next
  case (Cons a rest)
  show ?case
  proof (cases rule: poll_cases [where a = a and d = d and now = now])
    case success
    with Cons.prems show ?thesis by (simp add: poll_success sleeps_simps del: poll.simps)
  next
    case (throw e)
    with Cons.prems show ?thesis by (simp add: poll_throw sleeps_simps del: poll.simps)
  next
    case (retry e)
    let ?now1 = "now + int (fetch_ms a)"
    let ?delay = "min (100 * 2 ^ n) (d - ?now1)"
    let ?next = "poll d (Suc n) (?now1 + ?delay + int (timer_lag a)) rest"
    have unfold: "snd (snd (poll d n now (a # rest))) = Fetch ?now1 # Sleep ?delay # snd (snd ?next)"
      by (simp add: poll_retry [OF retry] Let_def del: poll.simps)
    show ?thesis
    proof (cases k)
      case 0
      with retry show ?thesis by (simp add: unfold sleeps_simps fetch_times_simps del: poll.simps)
    next
      case (Suc j)
      with Cons.prems have "j < length (sleeps (snd (snd ?next)))"
        by (simp add: unfold sleeps_simps del: poll.simps)
      from Cons.IH [OF this] Suc show ?thesis
        by (simp add: unfold sleeps_simps fetch_times_simps del: poll.simps)
    qed
  qed
qed

lemma poll_sleep_sum:
  "sum_list (sleeps (snd (snd (poll d n now as)))) \<le> max 0 (d - now)"
proof (induction as arbitrary: n now)
  case Nil
  then show ?case by (simp add: sleeps_simps)
next
  case (Cons a rest)
  show ?case
  proof (cases rule: poll_cases [where a = a and d = d and now = now])
    case success
    then show ?thesis by (simp add: poll_success sleeps_simps del: poll.simps)
  next
    case (throw e)
    then show ?thesis by (simp add: poll_throw sleeps_simps del: poll.simps)
  next
    case (retry e)
    let ?now1 = "now + int (fetch_ms a)"
    let ?delay = "min (100 * 2 ^ n) (d - ?now1)"
    let ?next = "poll d (Suc n) (?now1 + ?delay + int (timer_lag a)) rest"
    have unfold: "snd (snd (poll d n now (a # rest))) = Fetch ?now1 # Sleep ?delay # snd (snd ?next)"
      by (simp add: poll_retry [OF retry] Let_def del: poll.simps)
    have "sum_list (sleeps (snd (snd ?next))) \<le> max 0 (d - (?now1 + ?delay + int (timer_lag a)))"
      by (rule Cons.IH)
    moreover have "?delay \<le> d - ?now1" by simp
    moreover have "0 \<le> ?delay" using retry by simp
    ultimately show ?thesis
      by (simp add: unfold sleeps_simps del: poll.simps)
  qed
qed


lemma poll_throws_late:
  "fst (poll d n now as) = Some (Inl e) \<Longrightarrow>
   d < fst (snd (poll d n now as)) \<and>
   length (sleeps (snd (snd (poll d n now as)))) < length as \<and>
   length (fetch_times (snd (snd (poll d n now as)))) = Suc (length (sleeps (snd (snd (poll d n now as))))) \<and>
   last (fetch_times (snd (snd (poll d n now as)))) = fst (snd (poll d n now as)) \<and>
   fetch_failure (reply (as ! length (sleeps (snd (snd (poll d n now as)))))) = Some e"
proof (induction as arbitrary: n now)
  case Nil
  then show ?case by simp
next
  case (Cons a rest)
  show ?case
  proof (cases rule: poll_cases [where a = a and d = d and now = now])
    case success
    with Cons.prems show ?thesis by (simp add: poll_success del: poll.simps)
  next
    case (throw e')
    with Cons.prems show ?thesis
      by (simp add: poll_throw sleeps_simps fetch_times_simps del: poll.simps)
  next
    case (retry e')
    let ?now1 = "now + int (fetch_ms a)"
    let ?delay = "min (100 * 2 ^ n) (d - ?now1)"
    let ?next = "poll d (Suc n) (?now1 + ?delay + int (timer_lag a)) rest"
    have unfold: "poll d n now (a # rest) =
        (fst ?next, fst (snd ?next), Fetch ?now1 # Sleep ?delay # snd (snd ?next))"
      by (simp add: poll_retry [OF retry] Let_def del: poll.simps)
    from Cons.prems have "fst ?next = Some (Inl e)"
      by (simp add: unfold del: poll.simps)
    from Cons.IH [OF this] have ih:
      "d < fst (snd ?next) \<and>
       length (sleeps (snd (snd ?next))) < length rest \<and>
       length (fetch_times (snd (snd ?next))) = Suc (length (sleeps (snd (snd ?next)))) \<and>
       last (fetch_times (snd (snd ?next))) = fst (snd ?next) \<and>
       fetch_failure (reply (rest ! length (sleeps (snd (snd ?next))))) = Some e" .
    then have "fetch_times (snd (snd ?next)) \<noteq> []" by auto
    with ih show ?thesis
      by (simp add: unfold sleeps_simps fetch_times_simps del: poll.simps)
  qed
qed

lemma poll_settles:
  "\<forall>a\<in>set as. 1 \<le> fetch_ms a \<Longrightarrow> nat (d - now + 1) < length as \<Longrightarrow>
   fst (poll d n now as) \<noteq> None"
proof (induction as arbitrary: n now)
  case Nil
  then show ?case by simp
next
  case (Cons a rest)
  show ?case
  proof (cases rule: poll_cases [where a = a and d = d and now = now])
    case success
    then show ?thesis by (simp add: poll_success del: poll.simps)
  next
    case (throw e')
    then show ?thesis by (simp add: poll_throw del: poll.simps)
  next
    case (retry e')
    let ?now1 = "now + int (fetch_ms a)"
    let ?delay = "min (100 * 2 ^ n) (d - ?now1)"
    let ?now2 = "?now1 + ?delay + int (timer_lag a)"
    have unfold: "fst (poll d n now (a # rest)) = fst (poll d (Suc n) ?now2 rest)"
      by (simp add: poll_retry [OF retry] Let_def del: poll.simps)
    have "1 \<le> fetch_ms a" using Cons.prems(1) by simp
    moreover have "0 \<le> ?delay" using retry by simp
    ultimately have "now + 1 \<le> ?now2" by linarith
    with Cons.prems(2) retry(2) have "nat (d - ?now2 + 1) < length rest" by simp
    moreover from Cons.prems(1) have "\<forall>a\<in>set rest. 1 \<le> fetch_ms a" by simp
    ultimately have "fst (poll d (Suc n) ?now2 rest) \<noteq> None" by (rule Cons.IH [rotated])
    then show ?thesis by (simp add: unfold del: poll.simps)
  qed
qed

lemma poll_answered:
  "\<exists>a\<in>set as. fetch_failure (reply a) = None \<Longrightarrow> fst (poll d n now as) \<noteq> None"
proof (induction as arbitrary: n now)
  case Nil
  then show ?case by simp
next
  case (Cons a rest)
  show ?case
  proof (cases rule: poll_cases [where a = a and d = d and now = now])
    case success
    then show ?thesis by (simp add: poll_success del: poll.simps)
  next
    case (throw e')
    then show ?thesis by (simp add: poll_throw del: poll.simps)
  next
    case (retry e')
    with Cons.prems have "\<exists>a\<in>set rest. fetch_failure (reply a) = None" by auto
    from Cons.IH [OF this] show ?thesis
      by (simp add: poll_retry [OF retry] Let_def del: poll.simps)
  qed
qed

lemma poll_never_succeeds:
  "\<forall>a\<in>set as. fetch_failure (reply a) \<noteq> None \<Longrightarrow> fst (poll d n now as) \<noteq> Some (Inr b)"
proof (induction as arbitrary: n now)
  case Nil
  then show ?case by simp
next
  case (Cons a rest)
  show ?case
  proof (cases rule: poll_cases [where a = a and d = d and now = now])
    case success
    with Cons.prems show ?thesis by simp
  next
    case (throw e')
    then show ?thesis by (simp add: poll_throw del: poll.simps)
  next
    case (retry e')
    from Cons.prems have "\<forall>a\<in>set rest. fetch_failure (reply a) \<noteq> None" by simp
    from Cons.IH [OF this] show ?thesis
      by (simp add: poll_retry [OF retry] Let_def del: poll.simps)
  qed
qed

text \<open>
  C3, as the code has it. The first request is made without a sleep. After the failed
  request number \<open>k\<close> (counted from 0), that is before request \<open>k + 1\<close>, the probe sleeps
  exactly the minimum of \<open>100 * 2 ^ k\<close> ms and the time left to the deadline (10 s after
  the start), so no sleep is requested past the deadline and the sleeps sum to at most
  10 s. A request that fails after the deadline makes the probe throw the error of that
  request, without another sleep. A target that never answers successfully, each request
  taking at least a millisecond, makes the probe throw within 10002 requests.
\<close>

theorem backoff_schedule:
  assumes "healthCheck now as = (r, t, evs)"
  shows "(\<forall>k < length (sleeps evs).
            k < length (fetch_times evs) \<and>
            sleeps evs ! k = min (100 * 2 ^ k) (now + 10000 - fetch_times evs ! k) \<and>
            0 \<le> sleeps evs ! k \<and>
            fetch_times evs ! k + sleeps evs ! k \<le> now + 10000) \<and>
         sum_list (sleeps evs) \<le> 10000 \<and>
         (\<forall>e. r = Some (Inl e) \<longrightarrow>
            now + 10000 < t \<and>
            length (sleeps evs) < length as \<and>
            fetch_failure (reply (as ! length (sleeps evs))) = Some e \<and>
            length (fetch_times evs) = Suc (length (sleeps evs)) \<and>
            last (fetch_times evs) = t) \<and>
         ((\<forall>a\<in>set as. fetch_failure (reply a) \<noteq> None \<and> 1 \<le> fetch_ms a) \<and> 10002 \<le> length as \<longrightarrow>
            (\<exists>e. r = Some (Inl e)))"
proof -
  let ?d = "now + 10000"
  have p: "poll ?d 0 now as = (r, t, evs)"
    using assms by (simp add: healthCheck_def)
  have sched: "k < length (fetch_times evs) \<and>
            sleeps evs ! k = min (100 * 2 ^ k) (?d - fetch_times evs ! k) \<and>
            0 \<le> sleeps evs ! k \<and> fetch_times evs ! k + sleeps evs ! k \<le> ?d"
    if "k < length (sleeps evs)" for k
  proof -
    from that p have "k < length (sleeps (snd (snd (poll ?d 0 now as))))" by simp
    from poll_schedule [OF this] p
    have a: "k < length (fetch_times evs)"
      and b: "sleeps evs ! k = min (100 * 2 ^ k) (?d - fetch_times evs ! k)"
      and c: "fetch_times evs ! k \<le> ?d"
      by simp_all
    from b c have "0 \<le> sleeps evs ! k" "fetch_times evs ! k + sleeps evs ! k \<le> ?d"
      by simp_all
    with a b show ?thesis by blast
  qed
  have total: "sum_list (sleeps evs) \<le> 10000"
    using poll_sleep_sum [of ?d 0 now as] p by simp
  have thrown: "now + 10000 < t \<and> length (sleeps evs) < length as \<and>
            fetch_failure (reply (as ! length (sleeps evs))) = Some e \<and>
            length (fetch_times evs) = Suc (length (sleeps evs)) \<and>
            last (fetch_times evs) = t" if "r = Some (Inl e)" for e
  proof -
    from that p have "fst (poll ?d 0 now as) = Some (Inl e)" by simp
    from poll_throws_late [OF this] p show ?thesis by simp
  qed
  have ends: "\<exists>e. r = Some (Inl e)"
    if "\<forall>a\<in>set as. fetch_failure (reply a) \<noteq> None \<and> 1 \<le> fetch_ms a" "10002 \<le> length as"
  proof -
    from that have "fst (poll ?d 0 now as) \<noteq> None"
      by (intro poll_settles) auto
    moreover from that(1) have "fst (poll ?d 0 now as) \<noteq> Some (Inr b)" for b
      by (intro poll_never_succeeds) auto
    ultimately have "r \<noteq> None" and "r \<noteq> Some (Inr b)" for b
      using p by simp_all
    then show ?thesis
      by (cases r; cases "the r") auto
  qed
  from sched total thrown ends show ?thesis by blast
qed

lemma healthCheck_slow:
  "healthCheck 0 slow_attempts =
     (Some (Inl (TypeError ''fetch failed'')), 15100, [Fetch 0, Sleep 100, Fetch 15100])"
  by (simp add: healthCheck_def slow_attempts_def Let_def)

lemma healthCheck_exited:
  "healthCheck 0 [refused, refused, refused, refused, refused, refused, refused, refused] =
     (Some (Inl (TypeError ''fetch failed'')), 10001,
      [Fetch 1, Sleep 100, Fetch 102, Sleep 200, Fetch 303, Sleep 400, Fetch 704, Sleep 800,
       Fetch 1505, Sleep 1600, Fetch 3106, Sleep 3200, Fetch 6307, Sleep 3693, Fetch 10001])"
  by (simp add: healthCheck_def refused_def Let_def)

text \<open>
  C3 as stated fails where a request is slow: the sleep before request 1 is 100 ms, not
  the minimum of 200 ms and the time left, and the probe ends 15.1 s after its start.
\<close>

theorem backoff_schedule_counterexample:
  "sleeps (snd (snd (healthCheck 0 slow_attempts))) ! 0 \<noteq>
     min (100 * 2 ^ 1) (0 + 10000 - fetch_times (snd (snd (healthCheck 0 slow_attempts))) ! 0) \<and>
   \<not> (fst (snd (healthCheck 0 slow_attempts)) - 0 \<le> 10000)"
  by (simp add: healthCheck_slow sleeps_simps fetch_times_simps)

lemma healthCheck_never_ready:
  "healthCheck 0 never_ready =
     (Some (Inl (TypeError ''fetch failed'')), 10001,
      [Fetch 1, Sleep 100, Fetch 102, Sleep 200, Fetch 303, Sleep 400, Fetch 704, Sleep 800,
       Fetch 1505, Sleep 1600, Fetch 3106, Sleep 3200, Fetch 6307, Sleep 3693, Fetch 10001])"
  by (simp add: healthCheck_def never_ready_def refused_def Let_def)

theorem backoff_schedule_witness:
  "healthCheck 0 never_ready =
     (Some (Inl (TypeError ''fetch failed'')), 10001,
      [Fetch 1, Sleep 100, Fetch 102, Sleep 200, Fetch 303, Sleep 400, Fetch 704, Sleep 800,
       Fetch 1505, Sleep 1600, Fetch 3106, Sleep 3200, Fetch 6307, Sleep 3693, Fetch 10001]) \<and>
   list_all (\<lambda>a. fetch_failure (reply a) \<noteq> None \<and> 1 \<le> fetch_ms a) never_ready \<and>
   10002 \<le> length never_ready \<and>
   sum_list [100, 200, 400, 800, 1600, 3200, 3693 :: int] \<le> 10000 \<and>
   (3693 :: int) = min (100 * 2 ^ 6) (0 + 10000 - 6307) \<and>
   fetch_failure (reply (never_ready ! 7)) = Some (TypeError ''fetch failed'')"
  using backoff_schedule [OF healthCheck_never_ready]
  by (simp add: healthCheck_never_ready sleeps_simps fetch_times_simps list_all_iff)
     (simp add: never_ready_def refused_def)

section \<open>The probe inside deploy\<close>

lemma poll_events:
  "ev \<in> set (snd (snd (poll d n now as))) \<Longrightarrow> (\<exists>t. ev = Fetch t) \<or> (\<exists>s. ev = Sleep s)"
proof (induction as arbitrary: n now)
  case Nil
  then show ?case by simp
next
  case (Cons a rest)
  show ?case
  proof (cases rule: poll_cases [where a = a and d = d and now = now])
    case success
    with Cons.prems show ?thesis by (simp add: poll_success del: poll.simps)
  next
    case (throw e')
    with Cons.prems show ?thesis by (simp add: poll_throw del: poll.simps)
  next
    case (retry e')
    from Cons.prems Cons.IH show ?thesis
      by (auto simp add: poll_retry [OF retry] Let_def simp del: poll.simps)
  qed
qed

text \<open>The clock does not run backwards during the probe.\<close>

lemma poll_clock: "now \<le> fst (snd (poll d n now as))"
proof (induction as arbitrary: n now)
  case Nil
  show ?case by simp
next
  case (Cons a rest)
  show ?case
  proof (cases rule: poll_cases [where a = a and d = d and now = now])
    case success
    then show ?thesis by (simp add: poll_success del: poll.simps)
  next
    case (throw e')
    then show ?thesis by (simp add: poll_throw del: poll.simps)
  next
    case (retry e')
    let ?now1 = "now + int (fetch_ms a)"
    let ?delay = "min (100 * 2 ^ n) (d - ?now1)"
    have "0 \<le> ?delay" using retry(2) by simp
    then have "now \<le> ?now1 + ?delay + int (timer_lag a)" by simp
    also have "\<dots> \<le> fst (snd (poll d (Suc n) (?now1 + ?delay + int (timer_lag a)) rest))"
      by (rule Cons.IH)
    finally show ?thesis by (simp add: poll_retry [OF retry] Let_def del: poll.simps)
  qed
qed

lemma exitCode_exited:
  "exits b = Some (te, code) \<Longrightarrow> te \<le> now \<Longrightarrow> exitCode b now = Some code"
  by (simp add: exitCode_def)

text \<open>
  C5, as the code has it: \<^verbatim>\<open>deploy\<close> runs the probe before it looks at the process. Let
  the backend process have exited when the probe starts, and let no file-system or
  process call be rejected. Then the requests and sleeps of the probe are made all the
  same. When the probe throws, \<^verbatim>\<open>deploy\<close> throws the same error, and the clock is then
  past the deadline of 10 s. When the probe succeeds (some other server answers),
  \<^verbatim>\<open>deploy\<close> throws \<open>Convex process failed to start\<close> and the deploy command is not run.
  Either way the process is signalled and the log files are closed after the probe.
\<close>

theorem exited_backend_is_probed_first:
  assumes "b = bs (join [dir, ''backend''])"
      and "\<forall>op. fault b op = None"
      and "exits b = Some (te, code)" and "te \<le> started b"
      and "healthCheck (started b) (attempts b) = (Some res, t, evs)"
  shows "snd (deploy bs dir) =
           [MkdirP (join [dir, ''backend'']),
            MkdirP (join [join [dir, ''backend''], ''convex_local_storage'']),
            OpenLog (join [join [dir, ''backend''], ''backend.stdout.log'']),
            OpenLog (join [join [dir, ''backend''], ''backend.stderr.log'']),
            SpawnBackend (join [dir, ''backend''])] @ evs @ [Kill, CloseStdout, CloseStderr] \<and>
         (\<forall>e. res = Inl e \<longrightarrow>
            fst (deploy bs dir) = Some (Inl e) \<and> started b + 10000 < t) \<and>
         (\<forall>ok. res = Inr ok \<longrightarrow>
            fst (deploy bs dir) = Some (Inl (Error ''Convex process failed to start''))) \<and>
         (\<forall>p. RunDeploy p \<notin> set (snd (deploy bs dir)))"
proof -
  have "started b \<le> fst (snd (poll (started b + 10000) 0 (started b) (attempts b)))"
    by (rule poll_clock)
  with assms(5) have "started b \<le> t" by (simp add: healthCheck_def)
  with assms(4) have "te \<le> t" by simp
  with assms(3) have exited: "exitCode b t = Some code" by (rule exitCode_exited)
  have body: "deploy_body b (join [dir, ''project'']) =
      (Some (case res of Inl e \<Rightarrow> Inl e | Inr ok \<Rightarrow> Inl (Error ''Convex process failed to start'')), evs)"
    using assms(5) exited by (simp add: deploy_body_def split: sum.splits)
  have run: "deploy bs dir =
      (Some (case res of Inl e \<Rightarrow> Inl e | Inr ok \<Rightarrow> Inl (Error ''Convex process failed to start'')),
       [MkdirP (join [dir, ''backend'']),
        MkdirP (join [join [dir, ''backend''], ''convex_local_storage'']),
        OpenLog (join [join [dir, ''backend''], ''backend.stdout.log'']),
        OpenLog (join [join [dir, ''backend''], ''backend.stderr.log'']),
        SpawnBackend (join [dir, ''backend''])] @ evs @ [Kill, CloseStdout, CloseStderr])"
    using assms(1,2) body
    by (simp add: deploy_def perform_no_fault Let_def del: perform.simps)
  have late: "started b + 10000 < t" if "res = Inl e" for e
  proof -
    from that assms(5)
    have "fst (poll (started b + 10000) 0 (started b) (attempts b)) = Some (Inl e)"
      by (simp add: healthCheck_def)
    from poll_throws_late [OF this] assms(5) show ?thesis by (simp add: healthCheck_def)
  qed
  have quiet: "RunDeploy p \<notin> set evs" for p
    using poll_events [of "RunDeploy p" "started b + 10000" 0 "started b" "attempts b"] assms(5)
    by (auto simp: healthCheck_def)
  from run late quiet show ?thesis by simp
qed

lemma join_backend: "join [''out/evals/b/a'', ''backend''] = ''out/evals/b/a/backend''"
  by (simp add: join_def normalize_path_def Let_def)

text \<open>
  C5 as stated (a backend that has already exited makes the deploy stage fail at once
  with a process-exited error) fails: the process has exited with status 1 when the probe
  starts, nothing answers, and \<^verbatim>\<open>deploy\<close> throws the error of the last request after
  seven sleeps, at 10001 ms.
\<close>

theorem exited_backend_counterexample:
  "exitCode backend_exited (started backend_exited) = Some 1 \<and>
   fst (deploy (\<lambda>d. backend_exited) ''out/evals/b/a'') = Some (Inl (TypeError ''fetch failed'')) \<and>
   sleeps (snd (snd (healthCheck (started backend_exited) (attempts backend_exited)))) =
     [100, 200, 400, 800, 1600, 3200, 3693] \<and>
   fst (snd (healthCheck (started backend_exited) (attempts backend_exited))) = 10001"
  by (simp add: backend_exited_def exitCode_def deploy_def deploy_body_def healthCheck_exited
        sleeps_simps Let_def)

theorem exited_backend_is_probed_first_witness:
  "(\<forall>op. fault backend_exited op = None) \<and>
   exits backend_exited = Some (0, 1) \<and> 0 \<le> started backend_exited \<and>
   healthCheck (started backend_exited) (attempts backend_exited) =
     (Some (Inl (TypeError ''fetch failed'')), 10001,
      snd (snd (healthCheck (started backend_exited) (attempts backend_exited)))) \<and>
   fst (deploy (\<lambda>d. backend_exited) ''out/evals/b/a'') = Some (Inl (TypeError ''fetch failed'')) \<and>
   started backend_exited + 10000 < 10001 \<and>
   (\<forall>op. fault (backend_ready\<lparr>exits := Some (0, 1)\<rparr>) op = None) \<and>
   healthCheck (started (backend_ready\<lparr>exits := Some (0, 1)\<rparr>)) (attempts (backend_ready\<lparr>exits := Some (0, 1)\<rparr>)) =
     (Some (Inr True), 5, [Fetch 5]) \<and>
   fst (deploy (\<lambda>d. backend_ready\<lparr>exits := Some (0, 1)\<rparr>) ''out/evals/b/a'') =
     Some (Inl (Error ''Convex process failed to start'')) \<and>
   snd (deploy (\<lambda>d. backend_ready\<lparr>exits := Some (0, 1)\<rparr>) ''out/evals/b/a'') =
     [MkdirP ''out/evals/b/a/backend'', MkdirP ''out/evals/b/a/backend/convex_local_storage'',
      OpenLog ''out/evals/b/a/backend/backend.stdout.log'',
      OpenLog ''out/evals/b/a/backend/backend.stderr.log'',
      SpawnBackend ''out/evals/b/a/backend'', Fetch 5, Kill, CloseStdout, CloseStderr]"
  using exited_backend_is_probed_first [of backend_exited "\<lambda>d. backend_exited" "''out/evals/b/a''"
      0 1 "Inl (TypeError ''fetch failed'')" 10001
      "snd (snd (healthCheck (started backend_exited) (attempts backend_exited)))"]
    exited_backend_is_probed_first [of "backend_ready\<lparr>exits := Some (0, 1)\<rparr>"
      "\<lambda>d. backend_ready\<lparr>exits := Some (0, 1)\<rparr>" "''out/evals/b/a''" 0 1 "Inr True" 5 "[Fetch 5]"]
  by (simp add: backend_exited_def backend_ready_def healthCheck_exited)
     (auto simp add: healthCheck_def join_def normalize_path_def Let_def)

section \<open>The evaluation loop runs through\<close>

lemma printable_simps:
  "printable (Error m)" "printable (TypeError m)" "printable (VerificationError m (JArr xs))"
  by (simp_all add: printable_def)

lemma setupJs_printable: "setupJs tc d = Inl e \<Longrightarrow> printable e"
  by (auto simp: setupJs_def Let_def printable_simps split: if_splits)

lemma typecheckJs_printable: "typecheckJs tc d = Inl e \<Longrightarrow> printable e"
  by (auto simp: typecheckJs_def Let_def printable_simps split: if_splits prod.splits)

lemma fetch_failure_printable:
  "fetch_failure r = Some e \<Longrightarrow>
   (case r of Refused e \<Rightarrow> printable e | Status n \<Rightarrow> True) \<Longrightarrow> printable e"
  by (cases r) (auto simp: printable_simps split: if_splits)

lemma deploy_pending:
  assumes "fst (deploy bs dir) = None"
  shows "fst (healthCheck (started (bs (join [dir, ''backend''])))
               (attempts (bs (join [dir, ''backend''])))) = None"
  using assms
  by (auto simp: deploy_def deploy_body_def Let_def simp del: perform.simps
      split: prod.splits option.splits sum.splits if_splits)

text \<open>
  An error thrown by \<^verbatim>\<open>deploy\<close> comes from a file-system or process call, or from the
  \<^verbatim>\<open>try\<close> block.
\<close>

lemma deploy_error_origin:
  assumes "fst (deploy bs dir) = Some (Inl e)"
  shows "(\<exists>msg. e = Error msg) \<or>
         fst (deploy_body (bs (join [dir, ''backend''])) (join [dir, ''project''])) = Some (Inl e)"
proof -
  let ?b = "bs (join [dir, ''backend''])"
  let ?acq = "perform (fault ?b)
     [MkdirP (join [dir, ''backend'']),
      MkdirP (join [join [dir, ''backend''], ''convex_local_storage'']),
      OpenLog (join [join [dir, ''backend''], ''backend.stdout.log'']),
      OpenLog (join [join [dir, ''backend''], ''backend.stderr.log'']),
      SpawnBackend (join [dir, ''backend''])]"
  let ?rel = "perform (fault ?b) [CloseStdout, CloseStderr]"
  show ?thesis
  proof (cases "fst ?acq")
    case (Some e')
    with assms have "e' = e"
      by (simp add: deploy_def Let_def case_prod_unfold del: perform.simps)
    with Some perform_error show ?thesis by blast
  next
    case None
    show ?thesis
    proof (cases "fst ?rel")
      case (Some e')
      with None assms have "e' = e"
        by (auto simp add: deploy_def Let_def case_prod_unfold simp del: perform.simps
            split: option.splits)
      with Some perform_error show ?thesis by blast
    next
      case rel: None
      with None assms show ?thesis
        by (auto simp add: deploy_def Let_def case_prod_unfold simp del: perform.simps
            split: option.splits)
    qed
  qed
qed

lemma poll_error_origin:
  assumes "fst (poll d n now as) = Some (Inl e)"
  shows "\<exists>a\<in>set as. fetch_failure (reply a) = Some e"
proof -
  from poll_throws_late [OF assms]
  have "length (sleeps (snd (snd (poll d n now as)))) < length as"
    and "fetch_failure (reply (as ! length (sleeps (snd (snd (poll d n now as)))))) = Some e"
    by simp_all
  then show ?thesis using nth_mem by blast
qed

lemma healthCheck_settles:
  assumes "settles as"
  shows "fst (healthCheck now as) \<noteq> None"
proof -
  from assms consider "\<exists>a\<in>set as. fetch_failure (reply a) = None"
    | "\<forall>a\<in>set as. 1 \<le> fetch_ms a" "10002 \<le> length as"
    by (auto simp: settles_def)
  then show ?thesis
  proof cases
    case 1
    then show ?thesis unfolding healthCheck_def by (rule poll_answered)
  next
    case 2
    then show ?thesis unfolding healthCheck_def by (intro poll_settles) auto
  qed
qed

lemma deploy_settles:
  assumes "settles (attempts (bs (join [dir, ''backend''])))"
  shows "fst (deploy bs dir) \<noteq> None"
proof
  assume "fst (deploy bs dir) = None"
  from deploy_pending [OF this]
    healthCheck_settles [OF assms, of "started (bs (join [dir, ''backend'']))"]
  show False by simp
qed

lemma deploy_printable:
  assumes "fst (deploy bs dir) = Some (Inl e)"
      and "\<forall>a\<in>set (attempts (bs (join [dir, ''backend'']))).
             case reply a of Refused e \<Rightarrow> printable e | Status n \<Rightarrow> True"
  shows "printable e"
proof -
  let ?b = "bs (join [dir, ''backend''])"
  from deploy_error_origin [OF assms(1)] consider msg where "e = Error msg"
    | "fst (deploy_body ?b (join [dir, ''project''])) = Some (Inl e)" by blast
  then show ?thesis
  proof cases
    case 1
    then show ?thesis by (simp add: printable_simps)
  next
    case 2
    obtain r t evs where h: "healthCheck (started ?b) (attempts ?b) = (r, t, evs)"
      by (rule prod_cases3)
    show ?thesis
    proof (cases r)
      case None
      with h 2 show ?thesis by (simp add: deploy_body_def)
    next
      case (Some res)
      show ?thesis
      proof (cases res)
        case (Inl e')
        with Some h 2 have "e' = e" by (simp add: deploy_body_def)
        with Inl Some h have "fst (poll (started ?b + 10000) 0 (started ?b) (attempts ?b)) = Some (Inl e)"
          by (simp add: healthCheck_def)
        from poll_error_origin [OF this] obtain a where
          "a \<in> set (attempts ?b)" "fetch_failure (reply a) = Some e" by blast
        with assms(2) show ?thesis using fetch_failure_printable by blast
      next
        case (Inr ok)
        with Some h 2 show ?thesis
          by (auto simp: deploy_body_def printable_simps split: if_splits)
      qed
    qed
  qed
qed

lemma attempt_stage_completes:
  assumes "fst run = Some res" and "\<And>e. res = Inl e \<Longrightarrow> printable e"
  shows "fst (attempt_stage s run st) = Some (Inr ())"
  using assms
  by (cases run; cases st; cases res)
     (auto simp: attempt_stage_def printable_def split: sum.splits)

lemma and_then_completes:
  assumes "fst r = Some (Inr ())" and "\<And>st. fst (f st) = Some (Inr ())"
  shows "fst (and_then r f) = Some (Inr ())"
  using assms by (cases r) (auto simp: and_then_def)

lemma evalProject_completes:
  assumes lint: "\<And>e. lintJs (tools w) dir = Inl e \<Longrightarrow> printable e"
      and fetch: "\<forall>a\<in>set (attempts (backends w (join [dir, ''backend'']))).
                    case reply a of Refused e \<Rightarrow> printable e | Status n \<Rightarrow> True"
      and probe: "settles (attempts (backends w (join [dir, ''backend''])))"
  shows "fst (evalProject w dir c x) = Some (Inr ())"
proof -
  have su: "fst (attempt_stage Setup (Some (setupJs (tools w) dir), []) st) = Some (Inr ())" for st
    by (rule attempt_stage_completes [where res = "setupJs (tools w) dir"])
       (simp_all add: setupJs_printable)
  have tc: "fst (attempt_stage Typecheck (Some (typecheckJs (tools w) dir), []) st) = Some (Inr ())" for st
    by (rule attempt_stage_completes [where res = "typecheckJs (tools w) dir"])
       (simp_all add: typecheckJs_printable)
  have li: "fst (attempt_stage Lint (Some (lintJs (tools w) dir), []) st) = Some (Inr ())" for st
    by (rule attempt_stage_completes [where res = "lintJs (tools w) dir"])
       (simp_all add: lint)
  obtain res where res: "fst (deploy (backends w) dir) = Some res"
    using deploy_settles [of "backends w" dir] probe by blast
  have de: "fst (attempt_stage Deploy (deploy (backends w) dir) st) = Some (Inr ())" for st
    using res
  proof (rule attempt_stage_completes)
    fix e assume "res = Inl e"
    with res have "fst (deploy (backends w) dir) = Some (Inl e)" by simp
    then show "printable e" using fetch by (rule deploy_printable)
  qed
  show ?thesis
    unfolding evalProject_def Let_def
    by (intro and_then_completes su) (auto intro!: and_then_completes tc li de)
qed

lemma evalProject_allOk:
  assumes "evalProject w dir c x = (Some (Inr ()), entry, allOk, evs)"
  shows "allOk = (\<not> any_failed entry) \<and> category entry = c \<and> test entry = x"
  using evalProject_shape [OF assms]
  by (elim disjE exE conjE) (auto simp: any_failed_def failed_def)

lemma well_behaved_names:
  assumes "well_behaved w out t"
  obtains c x where "destructure t = (Some c, Some x)"
    "fst (evalProject w (join [out, ''evals'', c, x]) c x) = Some (Inr ())"
proof -
  from assms obtain c x where d: "destructure t = (Some c, Some x)"
    by (auto simp: well_behaved_def split: prod.splits option.splits)
  let ?dir = "join [out, ''evals'', c, x]"
  from assms d have
    "case lintJs (tools w) ?dir of Inl e \<Rightarrow> printable e | Inr u \<Rightarrow> True"
    "\<forall>a\<in>set (attempts (backends w (join [?dir, ''backend'']))).
        case reply a of Refused e \<Rightarrow> printable e | Status n \<Rightarrow> True"
    "settles (attempts (backends w (join [?dir, ''backend''])))"
    by (simp_all add: well_behaved_def Let_def)
  then have "fst (evalProject w ?dir c x) = Some (Inr ())"
    by (intro evalProject_completes) auto
  with d show ?thesis by (rule that)
qed

lemma evaluate_runs_through:
  assumes "\<forall>t\<in>set ts. well_behaved w out t"
  shows "\<exists>rep' evs'.
           evaluate w out ts rep af evs =
             (Some (Inr ()), rep @ rep', af \<or> (\<exists>e\<in>set rep'. any_failed e), evs') \<and>
           map (\<lambda>e. (Some (category e), Some (test e))) rep' = map destructure ts"
  using assms
proof (induction ts arbitrary: rep af evs)
  case Nil
  then show ?case by simp
next
  case (Cons t ts)
  from Cons.prems have "well_behaved w out t" by simp
  then obtain c x where d: "destructure t = (Some c, Some x)"
    and run: "fst (evalProject w (join [out, ''evals'', c, x]) c x) = Some (Inr ())"
    by (rule well_behaved_names)
  obtain entry allOk pevs where
    ep: "evalProject w (join [out, ''evals'', c, x]) c x = (Some (Inr ()), entry, allOk, pevs)"
    using run by (cases "evalProject w (join [out, ''evals'', c, x]) c x") auto
  from evalProject_allOk [OF ep] have ok: "allOk = (\<not> any_failed entry)"
    and names: "category entry = c" "test entry = x" by simp_all
  have step: "evaluate w out (t # ts) rep af evs =
      evaluate w out ts (rep @ [entry]) (af \<or> \<not> allOk) (evs @ pevs)"
    using d ep by (simp add: join_args_def)
  from Cons.prems have "\<forall>t\<in>set ts. well_behaved w out t" by simp
  from Cons.IH [OF this, of "rep @ [entry]" "af \<or> \<not> allOk" "evs @ pevs"]
  obtain rep' evs' where
    ih: "evaluate w out ts (rep @ [entry]) (af \<or> \<not> allOk) (evs @ pevs) =
           (Some (Inr ()), (rep @ [entry]) @ rep', (af \<or> \<not> allOk) \<or> (\<exists>e\<in>set rep'. any_failed e), evs')"
    and m: "map (\<lambda>e. (Some (category e), Some (test e))) rep' = map destructure ts"
    by blast
  have "evaluate w out (t # ts) rep af evs =
          (Some (Inr ()), rep @ (entry # rep'), af \<or> (\<exists>e\<in>set (entry # rep'). any_failed e), evs')"
    using step ih ok by auto
  moreover have "map (\<lambda>e. (Some (category e), Some (test e))) (entry # rep') = map destructure (t # ts)"
    using m d names by simp
  ultimately show ?case by blast
qed

lemma main_generation_failed:
  assumes "apiKey w = Some k" "k \<noteq> []" "discover w opts = Inr tests" "\<not> skipGeneration opts"
      and "t \<in> set tests" "isl (fst (generateOne w (evalsDir opts) (outputDir_of opts w) t))"
  shows "main opts w =
           \<lparr>settled = Some (Inl (Error ''Generation failed.'')),
            generation = map (generateOne w (evalsDir opts) (outputDir_of opts w)) tests,
            report = [], reportFile = None, events = []\<rparr>"
proof -
  from assms(5,6) have "\<exists>g\<in>set (map (generateOne w (evalsDir opts) (outputDir_of opts w)) tests). isl (fst g)"
    by auto
  with assms(1-4) show ?thesis
    by (simp add: main_def stopped_def Let_def del: set_map)
qed

lemma main_evaluated:
  assumes "apiKey w = Some k" "k \<noteq> []" "discover w opts = Inr tests"
      and "skipGeneration opts \<or> (\<forall>t\<in>set tests. \<not> isl (fst (generateOne w (evalsDir opts) (outputDir_of opts w) t)))"
      and "\<not> skipEvaluation opts"
      and "evaluate w (outputDir_of opts w) tests [] False [] = (Some (Inr ()), rep, anyFailed, evs)"
  shows "settled (main opts w) = (if anyFailed then Some (Inl (Error ''Evaluation failed.'')) else Some (Inr ())) \<and>
         report (main opts w) = rep \<and>
         reportFile (main opts w) = (case reportPath opts of None \<Rightarrow> None
                                     | Some p \<Rightarrow> if p = [] then None else Some (p, rep))"
proof -
  let ?gens = "if skipGeneration opts then [] else map (generateOne w (evalsDir opts) (outputDir_of opts w)) tests"
  from assms(4) have "\<not> (\<exists>g\<in>set ?gens. isl (fst g))" by auto
  with assms(1-3,5,6) show ?thesis
    by (simp add: main_def Let_def del: set_map split del: if_split)
qed

section \<open>The run as a whole\<close>

lemma entrypoint_status:
  "(settled (main opts w) \<noteq> None \<longrightarrow> exitStatus (entrypoint opts w) = Some 0) \<and>
   (\<forall>e. settled (main opts w) = Some (Inl e) \<longrightarrow> printed (entrypoint opts w) = [e])"
  by (auto simp: entrypoint_def split: option.splits sum.splits)

text \<open>
  C9: when the generation phase runs and the generation of one discovered project fails,
  \<^verbatim>\<open>main\<close> rejects with \<open>Generation failed.\<close>: every generation has been started, the
  evaluation phase does not run, no report entry is made and no report file is written,
  and the entry point prints the error.
\<close>

theorem generation_failure_is_fatal:
  assumes "apiKey w = Some k" and "k \<noteq> []" and "discover w opts = Inr tests"
      and "\<not> skipGeneration opts" and "t \<in> set tests"
      and "isl (fst (generateOne w (evalsDir opts) (outputDir_of opts w) t))"
  shows "settled (main opts w) = Some (Inl (Error ''Generation failed.'')) \<and>
         generation (main opts w) = map (generateOne w (evalsDir opts) (outputDir_of opts w)) tests \<and>
         report (main opts w) = [] \<and> reportFile (main opts w) = None \<and>
         events (main opts w) = [] \<and>
         printed (entrypoint opts w) = [Error ''Generation failed.'']"
proof -
  have m: "main opts w =
           \<lparr>settled = Some (Inl (Error ''Generation failed.'')),
            generation = map (generateOne w (evalsDir opts) (outputDir_of opts w)) tests,
            report = [], reportFile = None, events = []\<rparr>"
    using assms by (rule main_generation_failed)
  then show ?thesis by (simp add: entrypoint_def)
qed

text \<open>
  C2, as the code has it. A failed generation makes \<^verbatim>\<open>main\<close> reject with
  \<open>Generation failed.\<close>. When generation is skipped or succeeds and the evaluation loop
  runs through (the environment is well behaved for every discovered name), the report
  holds one entry per discovered name, in order; it is written to the report path if one
  is given; and only then \<^verbatim>\<open>main\<close> rejects with \<open>Evaluation failed.\<close>, if and only if some
  entry has a failed stage. The entry point prints a rejection, and the process ends with
  status 0 whenever \<^verbatim>\<open>main\<close> settles: no exit status is ever set.
\<close>

theorem failures_reject_main:
  assumes "apiKey w = Some k" and "k \<noteq> []" and "discover w opts = Inr tests"
  shows "(\<not> skipGeneration opts \<and>
          (\<exists>t\<in>set tests. isl (fst (generateOne w (evalsDir opts) (outputDir_of opts w) t))) \<longrightarrow>
            settled (main opts w) = Some (Inl (Error ''Generation failed.''))) \<and>
         ((skipGeneration opts \<or>
           (\<forall>t\<in>set tests. \<not> isl (fst (generateOne w (evalsDir opts) (outputDir_of opts w) t)))) \<and>
          \<not> skipEvaluation opts \<and> (\<forall>t\<in>set tests. well_behaved w (outputDir_of opts w) t) \<longrightarrow>
            map (\<lambda>e. (Some (category e), Some (test e))) (report (main opts w)) = map destructure tests \<and>
            (\<forall>p. reportPath opts = Some p \<and> p \<noteq> [] \<longrightarrow>
                 reportFile (main opts w) = Some (p, report (main opts w))) \<and>
            settled (main opts w) =
              (if \<exists>e\<in>set (report (main opts w)). any_failed e
               then Some (Inl (Error ''Evaluation failed.'')) else Some (Inr ()))) \<and>
         (settled (main opts w) \<noteq> None \<longrightarrow> exitStatus (entrypoint opts w) = Some 0) \<and>
         (\<forall>e. settled (main opts w) = Some (Inl e) \<longrightarrow> printed (entrypoint opts w) = [e])"
proof (intro conjI impI)
  assume "\<not> skipGeneration opts \<and>
          (\<exists>t\<in>set tests. isl (fst (generateOne w (evalsDir opts) (outputDir_of opts w) t)))"
  then obtain t where "\<not> skipGeneration opts" "t \<in> set tests"
    "isl (fst (generateOne w (evalsDir opts) (outputDir_of opts w) t))" by blast
  with assms show "settled (main opts w) = Some (Inl (Error ''Generation failed.''))"
    by (simp add: main_generation_failed)
next
  assume h: "(skipGeneration opts \<or>
           (\<forall>t\<in>set tests. \<not> isl (fst (generateOne w (evalsDir opts) (outputDir_of opts w) t)))) \<and>
          \<not> skipEvaluation opts \<and> (\<forall>t\<in>set tests. well_behaved w (outputDir_of opts w) t)"
  then have wb: "\<forall>t\<in>set tests. well_behaved w (outputDir_of opts w) t" by simp
  from evaluate_runs_through [OF wb, of "[]" False "[]"] obtain rep evs where
    ev: "evaluate w (outputDir_of opts w) tests [] False [] =
           (Some (Inr ()), rep, \<exists>e\<in>set rep. any_failed e, evs)"
    and names: "map (\<lambda>e. (Some (category e), Some (test e))) rep = map destructure tests"
    by auto
  from h have g: "skipGeneration opts \<or>
      (\<forall>t\<in>set tests. \<not> isl (fst (generateOne w (evalsDir opts) (outputDir_of opts w) t)))"
    and e: "\<not> skipEvaluation opts" by simp_all
  note m = main_evaluated [OF assms g e ev]
  from m names show "map (\<lambda>e. (Some (category e), Some (test e))) (report (main opts w)) = map destructure tests"
    by simp
  from m show "\<forall>p. reportPath opts = Some p \<and> p \<noteq> [] \<longrightarrow>
                 reportFile (main opts w) = Some (p, report (main opts w))"
    by simp
  from m show "settled (main opts w) =
              (if \<exists>e\<in>set (report (main opts w)). any_failed e
               then Some (Inl (Error ''Evaluation failed.'')) else Some (Inr ()))"
    by simp
next
  assume "settled (main opts w) \<noteq> None"
  then show "exitStatus (entrypoint opts w) = Some 0" using entrypoint_status by blast
next
  show "\<forall>e. settled (main opts w) = Some (Inl e) \<longrightarrow> printed (entrypoint opts w) = [e]"
    using entrypoint_status by blast
qed

lemma generateOne_basic:
  "generateOne world_basic ''evals'' ''out'' ''basic'' = generateTest gen_escape ''evals/b/a'' ''out''"
  by (simp add: generateOne_def join_args_def join_def normalize_path_def world_basic_def Let_def)

lemma discover_generate: "discover world_basic opts_generate = Inr [''basic'']"
  by (simp add: discover_def world_basic_def opts_generate_def opts_basic_def truthy_array_def flat_def)

lemma opts_generate_sel:
  "evalsDir opts_generate = ''evals''" "outputDir_of opts_generate w = ''out''"
  "\<not> skipGeneration opts_generate" "outputDir_of opts_basic w = ''out''"
  by (simp_all add: opts_generate_def opts_basic_def outputDir_of_def)

theorem generation_failure_is_fatal_witness:
  "apiKey world_basic = Some ''key'' \<and> discover world_basic opts_generate = Inr [''basic''] \<and>
   isl (fst (generateOne world_basic ''evals'' ''out'' ''basic'')) \<and>
   settled (main opts_generate world_basic) = Some (Inl (Error ''Generation failed.'')) \<and>
   report (main opts_generate world_basic) = [] \<and>
   reportFile (main opts_generate world_basic) = None"
  using generation_failure_is_fatal [of world_basic "''key''" opts_generate "[''basic'']" "''basic''"]
  by (simp add: world_basic_sel discover_generate opts_generate_sel generateOne_basic
        generateTest_escape)


lemma well_behaved_basic: "well_behaved world_basic ''out'' ''basic''"
  by (simp add: well_behaved_def join_def normalize_path_def world_basic_sel lintJs_basic
        printable_simps backend_ready_def settles_def Let_def)

text \<open>
  C2 as stated (a failed generation or a failed stage gives a non-zero exit status) fails:
  the basic run has a failed lint stage, the run with generation switched on fails in
  generation, and both end with status 0.
\<close>

theorem failed_run_exits_zero_counterexample:
  "any_failed (hd (report (main opts_basic world_basic))) \<and>
   exitStatus (entrypoint opts_basic world_basic) = Some 0 \<and>
   settled (main opts_generate world_basic) = Some (Inl (Error ''Generation failed.'')) \<and>
   exitStatus (entrypoint opts_generate world_basic) = Some 0"
  using main_generation_failed [of world_basic "''key''" opts_generate "[''basic'']" "''basic''"]
  by (simp add: main_basic entrypoint_def entry_basic_def any_failed_def failed_def
        world_basic_sel discover_generate opts_generate_sel generateOne_basic generateTest_escape)

theorem failures_reject_main_witness:
  "apiKey world_basic = Some ''key'' \<and> discover world_basic opts_basic = Inr [''basic''] \<and>
   skipGeneration opts_basic \<and> \<not> skipEvaluation opts_basic \<and>
   well_behaved world_basic (outputDir_of opts_basic world_basic) ''basic'' \<and>
   map (\<lambda>e. (category e, test e)) (report (main opts_basic world_basic)) = [(''b'', ''a'')] \<and>
   any_failed (hd (report (main opts_basic world_basic))) \<and>
   reportFile (main opts_basic world_basic) =
     Some (''report.json'', report (main opts_basic world_basic)) \<and>
   settled (main opts_basic world_basic) = Some (Inl (Error ''Evaluation failed.'')) \<and>
   printed (entrypoint opts_basic world_basic) = [Error ''Evaluation failed.''] \<and>
   exitStatus (entrypoint opts_basic world_basic) = Some 0 \<and>
   \<not> skipGeneration opts_generate \<and>
   isl (fst (generateOne world_basic (evalsDir opts_generate)
              (outputDir_of opts_generate world_basic) ''basic'')) \<and>
   settled (main opts_generate world_basic) = Some (Inl (Error ''Generation failed.''))"
  using failures_reject_main [of world_basic "''key''" opts_basic "[''basic'']"]
    failures_reject_main [of world_basic "''key''" opts_generate "[''basic'']"]
  by (simp add: world_basic_sel discover_basic discover_generate opts_basic_sel opts_generate_sel
        well_behaved_basic generateOne_basic generateTest_escape main_basic entry_basic_def
        any_failed_def failed_def entrypoint_def)

end
